theory Spec2Isabelle
  imports Complex_Main
begin

section \<open>The geoprocessing toolbox as seen by the scripts\<close>

text \<open>
  Both scripts are straight-line Python that calls the \<^verbatim>\<open>arcpy\<close> toolbox. The toolbox is
  not part of the repository, so it is an environment: for every call site it says
  whether the call raises, and it supplies the values the scripts read back (field
  names, existence and type of the DEM, extents, map layers). A run of a script is a
  function from the environment to an outcome and the log of everything the script
  did, in order.
\<close>

subsection \<open>Exceptions\<close>

text \<open>
  The classes the scripts distinguish: \<^verbatim>\<open>ValueError\<close> is what the scripts raise themselves,
  \<^verbatim>\<open>arcpy.ExecuteError\<close> has a handler of its own, \<^verbatim>\<open>except Exception\<close> catches every
  subclass of \<^verbatim>\<open>Exception\<close>, and \<open>BaseExceptionOnly\<close> stands for the exceptions outside
  \<^verbatim>\<open>Exception\<close> (\<^verbatim>\<open>KeyboardInterrupt\<close>, \<^verbatim>\<open>SystemExit\<close>). The string is \<^verbatim>\<open>str(e)\<close>.
\<close>

datatype exn_class =
  ValueError | ExecuteError | AttributeError | NameError | OtherException | BaseExceptionOnly

datatype exn = Exn exn_class string

fun is_Exception :: "exn \<Rightarrow> bool" where
  "is_Exception (Exn c text) = (c \<noteq> BaseExceptionOnly)"

fun is_ExecuteError :: "exn \<Rightarrow> bool" where
  "is_ExecuteError (Exn c text) = (c = ExecuteError)"

fun str :: "exn \<Rightarrow> string" where
  "str (Exn c text) = text"

subsection \<open>Call sites, arguments and the log\<close>

datatype tool =
  GetParameterAsText | SpatialReference | TableToTable_conversion | ListFields
  | XYTableToPoint | Exists | Describe | Project | ProjectRaster | Clip
  | Slope | Aspect | Curvature | Hillshade | save | ExtractMultiValuesToPoints
  | ArcGISProject | addDataFromPath | moveLayer | listLayers
  | SomeTool_management | GetMessages | Delete_management | SetParameterAsText

text \<open>A call site is the tool and the source line of the call.\<close>

type_synonym site = "tool \<times> nat"

datatype spatial_ref = WKID nat | DatasetSR string

datatype layer = Layer (name: string)

datatype arg =
  Str string | Num int | Ref spatial_ref | Pairs "(string \<times> string) list"
  | Lyr layer | Kw string int | Name string

datatype event =
  Call site "arg list" | AddMessage string | AddError string | Print string

record 'n extent =
  XMin :: 'n
  YMin :: 'n
  XMax :: 'n
  YMax :: 'n

text \<open>
  The environment. \<open>fails s\<close> is the exception the call at site \<open>s\<close> raises, if it raises.
  The other fields are what the scripts read from the calls that return:
  \<^item> \<open>parameter i\<close> is \<^verbatim>\<open>GetParameterAsText(i)\<close>;
  \<^item> \<open>table_fields\<close> are the names of the fields \<^verbatim>\<open>ListFields\<close> gives for the temporary table;
  \<^item> \<open>dem_Exists\<close> is \<^verbatim>\<open>Exists(dem_path)\<close>, and \<open>dem_dataType\<close>, \<open>dem_spatialReference\<close> and
    \<open>dem_extent\<close> are the attributes of \<^verbatim>\<open>Describe(dem_path)\<close>;
  \<^item> \<open>points_extent\<close> is the extent \<^verbatim>\<open>Describe\<close> gives for the projected points;
  \<^item> \<open>added_layer l\<close> is what \<^verbatim>\<open>addDataFromPath\<close> returns at line \<open>l\<close>, \<open>listed_layers\<close> is
    \<^verbatim>\<open>listLayers()\<close>, and \<open>tool_messages\<close> is \<^verbatim>\<open>GetMessages(2)\<close>.

  Reading an attribute of an object a call returned (\<^verbatim>\<open>.extent\<close>, \<^verbatim>\<open>.dataType\<close>, \<^verbatim>\<open>.name\<close>,
  \<^verbatim>\<open>.activeMap\<close>) belongs to that call. \<open>'n\<close> is the number type of the coordinates (Python
  floats): the scripts only subtract, add and compare them, and format them into text
  with \<open>str_float\<close>, so the arithmetic is left to the type. \<open>path_join\<close> is
  \<^verbatim>\<open>os.path.join\<close>.
\<close>

record 'n env =
  fails :: "site \<Rightarrow> exn option"
  parameter :: "nat \<Rightarrow> string"
  path_join :: "string \<Rightarrow> string \<Rightarrow> string"
  str_float :: "'n \<Rightarrow> string"
  table_fields :: "string list"
  dem_Exists :: bool
  dem_dataType :: string
  dem_spatialReference :: spatial_ref
  points_extent :: "'n extent"
  dem_extent :: "'n extent"
  added_layer :: "nat \<Rightarrow> layer option"
  listed_layers :: "layer list"
  tool_messages :: string

subsection \<open>Statements\<close>

datatype outcome = Completed | Raised exn

type_synonym stmt = "event list \<Rightarrow> outcome \<times> event list"

text \<open>A toolbox call is logged, then returns or raises as the environment says.\<close>

definition call :: "'n env \<Rightarrow> site \<Rightarrow> arg list \<Rightarrow> stmt" where
  "call env s args evs =
     (case fails env s of None \<Rightarrow> (Completed, evs @ [Call s args])
      | Some e \<Rightarrow> (Raised e, evs @ [Call s args]))"

text \<open>\<^verbatim>\<open>arcpy.AddMessage\<close>, \<^verbatim>\<open>arcpy.AddError\<close> and \<^verbatim>\<open>print\<close> only write to the log.\<close>

definition tell :: "event \<Rightarrow> stmt" where
  "tell ev evs = (Completed, evs @ [ev])"

definition raise :: "exn \<Rightarrow> stmt" where
  "raise e evs = (Raised e, evs)"

fun seq :: "stmt list \<Rightarrow> stmt" where
  "seq [] evs = (Completed, evs)"
| "seq (m # ms) evs =
     (case m evs of (Completed, evs') \<Rightarrow> seq ms evs'
      | (Raised e, evs') \<Rightarrow> (Raised e, evs'))"

definition for_each :: "'a list \<Rightarrow> ('a \<Rightarrow> stmt) \<Rightarrow> stmt" where
  "for_each xs body = seq (map body xs)"

definition try_except :: "stmt \<Rightarrow> (exn \<Rightarrow> stmt) \<Rightarrow> stmt" where
  "try_except body handler evs =
     (case body evs of (Completed, evs') \<Rightarrow> (Completed, evs')
      | (Raised e, evs') \<Rightarrow> handler e evs')"

text \<open>\<^verbatim>\<open>except Exception as e:\<close> with the given body; other exceptions pass through.\<close>

definition except_Exception :: "(exn \<Rightarrow> stmt) \<Rightarrow> exn \<Rightarrow> stmt" where
  "except_Exception body e = (if is_Exception e then body e else raise e)"

section \<open>Values shared by the two scripts\<close>

definition quote :: string where
  "quote = [CHR 0x27]"

definition temp_table :: string where
  "temp_table = ''in_memory'' @ [CHR 0x5C] @ ''temp_table''"

definition temp_fc_wgs84 :: string where
  "temp_fc_wgs84 = ''in_memory'' @ [CHR 0x5C] @ ''temp_fc_wgs84''"

definition x_field :: string where
  "x_field = ''Longitude''"

definition y_field :: string where
  "y_field = ''Latitude''"

definition input_csv :: "'n env \<Rightarrow> string" where
  "input_csv env = parameter env 0"

definition output_gdb :: "'n env \<Rightarrow> string" where
  "output_gdb env = parameter env 1"

definition output_fc :: "'n env \<Rightarrow> string" where
  "output_fc env = parameter env 2"

definition dem_path :: "'n env \<Rightarrow> string" where
  "dem_path env = parameter env 3"

definition clipped_dem :: "'n env \<Rightarrow> string" where
  "clipped_dem env = parameter env 4"

definition wgs84 :: spatial_ref where
  "wgs84 = WKID 4326"

definition nad83 :: spatial_ref where
  "nad83 = WKID 4269"

definition alberta_3tm :: spatial_ref where
  "alberta_3tm = WKID 3776"

definition output_fc_path :: "'n env \<Rightarrow> string" where
  "output_fc_path env = path_join env (output_gdb env) (output_fc env)"

definition fields_msg :: string where
  "fields_msg = ''CSV must contain fields '' @ quote @ x_field @ quote
     @ '' and '' @ quote @ y_field @ quote"

definition dem_missing_msg :: "'n env \<Rightarrow> string" where
  "dem_missing_msg env =
     ''DEM file at '' @ quote @ dem_path env @ quote @ '' does not exist.''"

definition dem_not_raster_msg :: "'n env \<Rightarrow> string" where
  "dem_not_raster_msg env =
     ''The file at '' @ quote @ dem_path env @ quote @ '' is not a valid raster dataset.''"

definition no_overlap_msg :: string where
  "no_overlap_msg =
     ''The extent of the points does not overlap with the extent of the DEM raster.''"

text \<open>
  The field check of both scripts (\<^verbatim>\<open>clip_dem.py\<close> 29-33, \<^verbatim>\<open>ArthurGEOG567_Final.py\<close> 27-31):
  \<^verbatim>\<open>
  for field in [x_field, y_field]:
      if field not in field_names:
          arcpy.AddError(...); raise ValueError(...)
  \<close>
\<close>

definition check_fields :: "string list \<Rightarrow> stmt" where
  "check_fields field_names =
     for_each [x_field, y_field] (\<lambda>field.
       if field \<notin> set field_names
       then seq [tell (AddError fields_msg), raise (Exn ValueError fields_msg)]
       else seq [])"

text \<open>
  The buffer step (\<^verbatim>\<open>clip_dem.py\<close> 56-63, \<^verbatim>\<open>ArthurGEOG567_Final.py\<close> 58-65): the four bounds
  are read from the extent and updated in place.
\<close>

definition buffer_extent :: "'n::{plus,minus} \<Rightarrow> 'n extent \<Rightarrow> 'n \<times> 'n \<times> 'n \<times> 'n" where
  "buffer_extent buffer extent =
     (let (xmin, ymin, xmax, ymax) = (XMin extent, YMin extent, XMax extent, YMax extent);
          xmin = xmin - buffer;
          ymin = ymin - buffer;
          xmax = xmax + buffer;
          ymax = ymax + buffer
      in (xmin, ymin, xmax, ymax))"

text \<open>The rectangle text handed to Clip: \<^verbatim>\<open>f"{xmin} {ymin} {xmax} {ymax}"\<close>.\<close>

definition rectangle_text :: "'n env \<Rightarrow> 'n \<times> 'n \<times> 'n \<times> 'n \<Rightarrow> string" where
  "rectangle_text env r =
     (case r of (xmin, ymin, xmax, ymax) \<Rightarrow>
        str_float env xmin @ '' '' @ str_float env ymin @ '' ''
          @ str_float env xmax @ '' '' @ str_float env ymax)"

section \<open>clip\_dem.py\<close>

definition clip_dem_buffer :: "'n::numeral" where
  "clip_dem_buffer = 200000"

definition clip_dem_rectangle :: "('n::{numeral,minus}) env \<Rightarrow> 'n \<times> 'n \<times> 'n \<times> 'n" where
  "clip_dem_rectangle env = buffer_extent clip_dem_buffer (points_extent env)"

text \<open>Lines 5-18: the parameters and the spatial references.\<close>

definition clip_dem_setup :: "'n env \<Rightarrow> stmt" where
  "clip_dem_setup env = seq
     [call env (GetParameterAsText, 5) [Num 0],
      call env (GetParameterAsText, 6) [Num 1],
      call env (GetParameterAsText, 7) [Num 2],
      call env (GetParameterAsText, 8) [Num 3],
      call env (GetParameterAsText, 9) [Num 4],
      call env (SpatialReference, 12) [Num 4326],
      call env (SpatialReference, 15) [Num 4269],
      call env (SpatialReference, 18) [Num 3776]]"

text \<open>Lines 20-37: the temporary table, the field check, the point feature class.\<close>

definition clip_dem_points :: "'n env \<Rightarrow> stmt" where
  "clip_dem_points env = seq
     [call env (TableToTable_conversion, 22)
        [Str (input_csv env), Str ''in_memory'', Str ''temp_table''],
      call env (ListFields, 29) [Str temp_table],
      check_fields (table_fields env),
      call env (XYTableToPoint, 37)
        [Str temp_table, Str temp_fc_wgs84, Str x_field, Str y_field, Str '''', Ref wgs84]]"

text \<open>Lines 39-45: the DEM exists and is a raster dataset.\<close>

definition clip_dem_validate_dem :: "'n env \<Rightarrow> stmt" where
  "clip_dem_validate_dem env = seq
     [call env (Exists, 40) [Str (dem_path env)],
      if \<not> dem_Exists env
      then seq [tell (AddError (dem_missing_msg env)),
                raise (Exn ValueError (dem_missing_msg env))]
      else seq [],
      call env (Describe, 43) [Str (dem_path env)],
      if dem_dataType env \<noteq> ''RasterDataset''
      then seq [tell (AddError (dem_not_raster_msg env)),
                raise (Exn ValueError (dem_not_raster_msg env))]
      else seq []]"

text \<open>Lines 47-68: projection to the DEM's spatial reference, the two extents.\<close>

definition clip_dem_extents :: "('n::{numeral,minus}) env \<Rightarrow> stmt" where
  "clip_dem_extents env =
     (let dem_sr = dem_spatialReference env;
          (xmin, ymin, xmax, ymax) = clip_dem_rectangle env;
          dem_extent = dem_extent env
      in seq
       [call env (Describe, 48) [Str (dem_path env)],
        call env (Project, 52) [Str temp_fc_wgs84, Str (output_fc_path env), Ref dem_sr],
        call env (Describe, 55) [Str (output_fc_path env)],
        call env (Describe, 66) [Str (dem_path env)],
        tell (AddMessage (''Points extent: xmin='' @ str_float env xmin
                @ '', ymin='' @ str_float env ymin @ '', xmax='' @ str_float env xmax
                @ '', ymax='' @ str_float env ymax)),
        tell (AddMessage (''DEM extent: xmin='' @ str_float env (XMin dem_extent)
                @ '', ymin='' @ str_float env (YMin dem_extent)
                @ '', xmax='' @ str_float env (XMax dem_extent)
                @ '', ymax='' @ str_float env (YMax dem_extent)))])"

text \<open>Lines 70-73: the overlap check.\<close>

definition clip_dem_check_overlap :: "('n::{numeral,minus,ord}) env \<Rightarrow> stmt" where
  "clip_dem_check_overlap env =
     (let (xmin, ymin, xmax, ymax) = clip_dem_rectangle env;
          dem_extent = dem_extent env
      in if xmin > XMax dem_extent \<or> xmax < XMin dem_extent
            \<or> ymin > YMax dem_extent \<or> ymax < YMin dem_extent
         then seq [tell (AddError no_overlap_msg), raise (Exn ValueError no_overlap_msg)]
         else seq [])"

text \<open>Lines 75-81: the clip, with its handler that logs and raises again.\<close>

definition clip_dem_clip :: "('n::{numeral,minus}) env \<Rightarrow> stmt" where
  "clip_dem_clip env =
     try_except
       (seq [call env (Clip, 77)
               [Str (dem_path env), Str (rectangle_text env (clip_dem_rectangle env)),
                Str (clipped_dem env), Str '''', Str '''', Str ''ClippingGeometry'',
                Str ''MAINTAIN_EXTENT''],
             tell (AddMessage (''DEM clipped successfully to the extent of the points and saved as ''
                     @ quote @ clipped_dem env @ quote))])
       (except_Exception (\<lambda>e.
          seq [tell (AddError (''Failed to clip DEM: '' @ str e)), raise e]))"

text \<open>Lines 83-92: cleanup, output parameters, the closing message.\<close>

definition clip_dem_finish :: "'n env \<Rightarrow> stmt" where
  "clip_dem_finish env = seq
     [call env (Delete_management, 84) [Str temp_table],
      call env (Delete_management, 85) [Str temp_fc_wgs84],
      call env (SetParameterAsText, 88) [Num 2, Str (output_fc_path env)],
      call env (SetParameterAsText, 89) [Num 4, Str (clipped_dem env)],
      tell (AddMessage (''Point feature class '' @ quote @ output_fc env @ quote
              @ '' created in '' @ quote @ output_gdb env @ quote
              @ '' with spatial reference matching DEM raster''))]"

definition clip_dem :: "('n::{numeral,minus,ord}) env \<Rightarrow> stmt" where
  "clip_dem env = seq
     [clip_dem_setup env,
      clip_dem_points env,
      clip_dem_validate_dem env,
      clip_dem_extents env,
      clip_dem_check_overlap env,
      clip_dem_clip env,
      clip_dem_finish env]"

definition run_clip_dem :: "('n::{numeral,minus,ord}) env \<Rightarrow> outcome \<times> event list" where
  "run_clip_dem env = clip_dem env []"

section \<open>ArthurGEOG567\_Final.py\<close>

definition projected_dem :: string where
  "projected_dem = ''in_memory'' @ [CHR 0x5C] @ ''projected_dem''"

definition slope_raster :: "'n env \<Rightarrow> string" where
  "slope_raster env = path_join env (output_gdb env) (output_fc env @ ''_slope'')"

definition aspect_raster :: "'n env \<Rightarrow> string" where
  "aspect_raster env = path_join env (output_gdb env) (output_fc env @ ''_aspect'')"

definition curvature_raster :: "'n env \<Rightarrow> string" where
  "curvature_raster env = path_join env (output_gdb env) (output_fc env @ ''_curvature'')"

definition hillshade_raster :: "'n env \<Rightarrow> string" where
  "hillshade_raster env = path_join env (output_gdb env) (output_fc env @ ''_hillshade'')"

definition Final_buffer :: "'n::numeral" where
  "Final_buffer = 5000"

definition Final_rectangle :: "('n::{numeral,minus}) env \<Rightarrow> 'n \<times> 'n \<times> 'n \<times> 'n" where
  "Final_rectangle env = buffer_extent Final_buffer (points_extent env)"

text \<open>\<^verbatim>\<open>f"{i}"\<close> for the index of a layer in the list of layers.\<close>

fun str_nat :: "nat \<Rightarrow> string" where
  "str_nat n =
     (if n < 10 then [char_of (48 + n)]
      else str_nat (n div 10) @ [char_of (48 + n mod 10)])"

text \<open>Lines 5-15, before the \<^verbatim>\<open>try\<close>: the parameters and the spatial references.\<close>

definition Final_setup :: "'n env \<Rightarrow> stmt" where
  "Final_setup env = seq
     [call env (GetParameterAsText, 5) [Num 0],
      call env (GetParameterAsText, 6) [Num 1],
      call env (GetParameterAsText, 7) [Num 2],
      call env (GetParameterAsText, 8) [Num 3],
      call env (GetParameterAsText, 9) [Num 4],
      call env (SpatialReference, 12) [Num 4326],
      call env (SpatialReference, 15) [Num 3776]]"

text \<open>Lines 18-35: the temporary table, the field check, the point feature class.\<close>

definition Final_points :: "'n env \<Rightarrow> stmt" where
  "Final_points env = seq
     [call env (TableToTable_conversion, 20)
        [Str (input_csv env), Str ''in_memory'', Str ''temp_table''],
      call env (ListFields, 27) [Str temp_table],
      check_fields (table_fields env),
      call env (XYTableToPoint, 35)
        [Str temp_table, Str temp_fc_wgs84, Str x_field, Str y_field, Str '''', Ref wgs84]]"

text \<open>Lines 37-43: the DEM exists and is a raster dataset.\<close>

definition Final_validate_dem :: "'n env \<Rightarrow> stmt" where
  "Final_validate_dem env = seq
     [call env (Exists, 38) [Str (dem_path env)],
      if \<not> dem_Exists env
      then seq [tell (AddError (dem_missing_msg env)),
                raise (Exn ValueError (dem_missing_msg env))]
      else seq [],
      call env (Describe, 41) [Str (dem_path env)],
      if dem_dataType env \<noteq> ''RasterDataset''
      then seq [tell (AddError (dem_not_raster_msg env)),
                raise (Exn ValueError (dem_not_raster_msg env))]
      else seq []]"

text \<open>Lines 45-78: both projections, the buffered extent of the points, the clip.\<close>

definition Final_clip :: "('n::{numeral,minus}) env \<Rightarrow> stmt" where
  "Final_clip env = seq
     [call env (Project, 47) [Str temp_fc_wgs84, Str (output_fc_path env), Ref alberta_3tm],
      tell (AddMessage ''Projected point feature class to Alberta 3TM 114 NAD 83''),
      call env (ProjectRaster, 52) [Str (dem_path env), Str projected_dem, Ref alberta_3tm],
      tell (AddMessage ''Projected DEM to Alberta 3TM 114''),
      call env (Describe, 57) [Str (output_fc_path env)],
      tell (AddMessage ''Clipping DEM to the extent of points...''),
      call env (Clip, 69)
        [Str projected_dem, Str (rectangle_text env (Final_rectangle env)),
         Str (clipped_dem env), Str ''#'', Str ''#'', Str ''NONE'', Str ''MAINTAIN_EXTENT''],
      tell (AddMessage (''Clipped DEM saved to '' @ clipped_dem env))]"

text \<open>Lines 80-105: slope, aspect, curvature and hillshade of the clipped DEM.\<close>

definition Final_derive :: "'n env \<Rightarrow> stmt" where
  "Final_derive env = seq
     [tell (AddMessage ''Calculating slope percent...''),
      call env (Slope, 89) [Str (clipped_dem env), Str ''PERCENT_RISE''],
      call env (save, 89) [Str (slope_raster env)],
      tell (AddMessage (''Slope percent raster saved to '' @ slope_raster env)),
      tell (AddMessage ''Calculating aspect...''),
      call env (Aspect, 94) [Str (clipped_dem env)],
      call env (save, 94) [Str (aspect_raster env)],
      tell (AddMessage (''Aspect raster saved to '' @ aspect_raster env)),
      tell (AddMessage ''Calculating slope curvature...''),
      call env (Curvature, 99) [Str (clipped_dem env)],
      call env (save, 99) [Str (curvature_raster env)],
      tell (AddMessage (''Slope curvature raster saved to '' @ curvature_raster env)),
      tell (AddMessage ''Generating hillshade...''),
      call env (Hillshade, 104) [Str (clipped_dem env), Kw ''azimuth'' 315, Kw ''altitude'' 45],
      call env (save, 104) [Str (hillshade_raster env)],
      tell (AddMessage (''Hillshade raster saved to '' @ hillshade_raster env))]"

text \<open>Lines 107-116: the raster values at the points.\<close>

definition extract_rasters :: "'n env \<Rightarrow> (string \<times> string) list" where
  "extract_rasters env =
     [(clipped_dem env, ''Elevation''),
      (slope_raster env, ''Slope''),
      (aspect_raster env, ''Aspect''),
      (curvature_raster env, ''Curvature'')]"

definition Final_extract :: "'n env \<Rightarrow> stmt" where
  "Final_extract env = seq
     [tell (AddMessage ''Extracting raster values to points...''),
      call env (ExtractMultiValuesToPoints, 115)
        [Str (output_fc_path env), Pairs (extract_rasters env), Str ''NONE''],
      tell (AddMessage (''Raster values extracted to points feature class ''
              @ quote @ output_fc_path env @ quote))]"

text \<open>
  Lines 118-157: the layers added to the map. \<open>added_layer env l\<close> is what
  \<^verbatim>\<open>m.addDataFromPath\<close> returns at line \<open>l\<close>; \<open>None\<close> is a value that is not true.
\<close>

definition Final_add_layers :: "'n env \<Rightarrow> stmt" where
  "Final_add_layers env =
     (let hillshade_layer = added_layer env 123;
          slope_layer = added_layer env 129;
          aspect_layer = added_layer env 135;
          curvature_layer = added_layer env 141;
          elevation_layer = added_layer env 147;
          output_fc_layer = added_layer env 153
      in seq
       [call env (ArcGISProject, 119) [Str ''CURRENT''],
        call env (addDataFromPath, 123) [Str (hillshade_raster env)],
        if hillshade_layer \<noteq> None
        then tell (AddMessage ''Hillshade raster added to the map.'')
        else tell (AddError ''Failed to add hillshade raster to the map.''),
        call env (addDataFromPath, 129) [Str (slope_raster env)],
        if slope_layer \<noteq> None
        then tell (AddMessage ''Slope raster added to the map.'')
        else tell (AddError ''Failed to add slope raster to the map.''),
        call env (addDataFromPath, 135) [Str (aspect_raster env)],
        if aspect_layer \<noteq> None
        then tell (AddMessage ''Aspect raster added to the map.'')
        else tell (AddError ''Failed to add aspect raster to the map.''),
        call env (addDataFromPath, 141) [Str (curvature_raster env)],
        if curvature_layer \<noteq> None
        then tell (AddMessage ''Curvature raster added to the map.'')
        else tell (AddError ''Failed to add curvature raster to the map.''),
        call env (addDataFromPath, 147) [Str (clipped_dem env)],
        if elevation_layer \<noteq> None
        then tell (AddMessage ''Elevation raster added to the map.'')
        else tell (AddError ''Failed to add elevation raster to the map.''),
        call env (addDataFromPath, 153) [Str (output_fc_path env)],
        if elevation_layer \<noteq> None
        then tell (AddMessage ''Point Feature Class added to the map.'')
        else tell (AddError ''Failed to add Point Feature Class to the map.'')])"

text \<open>Lines 159-179: the layer order, with a handler that logs and raises again.\<close>

definition Final_order_layers :: "'n env \<Rightarrow> stmt" where
  "Final_order_layers env =
     try_except
       (case (added_layer env 123, added_layer env 129, added_layer env 135,
              added_layer env 141, added_layer env 147) of
          (Some hillshade_layer, Some slope_layer, Some aspect_layer,
           Some curvature_layer, Some elevation_layer) \<Rightarrow> seq
            [tell (Print ''Layers before moving:''),
             tell (Print (''Hillshade layer: '' @ name hillshade_layer)),
             tell (Print (''Slope layer: '' @ name slope_layer)),
             tell (Print (''Aspect layer: '' @ name aspect_layer)),
             tell (Print (''Curvature layer: '' @ name curvature_layer)),
             tell (Print (''Elevation layer: '' @ name elevation_layer)),
             call env (moveLayer, 169) [Lyr hillshade_layer, Num 1],
             call env (moveLayer, 170) [Lyr slope_layer, Num 2],
             call env (moveLayer, 171) [Lyr aspect_layer, Num 3],
             call env (moveLayer, 172) [Lyr curvature_layer, Num 4],
             call env (moveLayer, 173) [Lyr elevation_layer, Num 5],
             tell (AddMessage
               ''Rasters added to the map with hillshade at the top and elevation at the bottom'')]
        | _ \<Rightarrow> tell (AddError ''Failed to add one or more layers to the map.''))
       (except_Exception (\<lambda>e.
          seq [tell (AddError (''Error moving layers: '' @ str e)), raise e]))"

text \<open>Lines 181-197: the point feature class is added once more; the layer order is listed.\<close>

definition Final_point_layer :: "'n env \<Rightarrow> stmt" where
  "Final_point_layer env = seq
     [call env (addDataFromPath, 182) [Str (output_fc_path env)],
      case added_layer env 182 of
        Some output_fc_layer \<Rightarrow> seq
          [tell (AddMessage ''Point feature class added to the map.''),
           try_except
             (seq [call env (moveLayer, 186) [Lyr output_fc_layer, Str ''TOP''],
                   tell (AddMessage ''Point layer moved to the top of the map.'')])
             (except_Exception (\<lambda>e.
                seq [tell (AddError (''Error moving the point layer to the top: '' @ str e)),
                     raise e]))]
      | None \<Rightarrow> tell (AddError ''Failed to add point feature class to the map.''),
      tell (AddMessage ''Current layer order:''),
      call env (listLayers, 196) [],
      for_each (enumerate 0 (listed_layers env)) (\<lambda>(i, layer).
        tell (AddMessage (str_nat i @ '': '' @ name layer)))]"

text \<open>
  Lines 199-207. \<^verbatim>\<open>arcpy.SomeTool_management(input, output)\<close>: the site is the lookup of
  the tool in the toolbox; when that returns, the argument \<^verbatim>\<open>output\<close> is evaluated, which
  is not a name the script defines. Neither handler raises again.
\<close>

definition Final_some_tool :: "'n env \<Rightarrow> stmt" where
  "Final_some_tool env =
     try_except
       (seq [call env (SomeTool_management, 201) [Name ''input'', Name ''output''],
             raise (Exn NameError (''name '' @ quote @ ''output'' @ quote @ '' is not defined''))])
       (\<lambda>e. if is_ExecuteError e
             then seq [call env (GetMessages, 204) [Num 2],
                       tell (Print (''Error with tool execution: '' @ tool_messages env))]
             else if is_Exception e
             then tell (Print (''Unexpected error: '' @ str e))
             else raise e)"

text \<open>Lines 209-220: cleanup, output parameters, the closing message.\<close>

definition Final_finish :: "'n env \<Rightarrow> stmt" where
  "Final_finish env = seq
     [call env (Delete_management, 210) [Str temp_table],
      call env (Delete_management, 211) [Str temp_fc_wgs84],
      call env (Delete_management, 212) [Str projected_dem],
      tell (AddMessage ''Temporary datasets removed.''),
      call env (SetParameterAsText, 216) [Num 2, Str (output_fc_path env)],
      call env (SetParameterAsText, 217) [Num 4, Str (clipped_dem env)],
      tell (AddMessage (''Point feature class '' @ quote @ output_fc env @ quote
              @ '' created in '' @ quote @ output_gdb env @ quote
              @ '' with spatial reference Alberta 3TM 114 NAD 83''))]"

text \<open>Lines 17-224: the \<^verbatim>\<open>try\<close> around the script and its handler.\<close>

definition Final_body :: "('n::{numeral,minus}) env \<Rightarrow> stmt" where
  "Final_body env = seq
     [Final_points env,
      Final_validate_dem env,
      Final_clip env,
      Final_derive env,
      Final_extract env,
      Final_add_layers env,
      Final_order_layers env,
      Final_point_layer env,
      Final_some_tool env,
      Final_finish env]"

definition ArthurGEOG567_Final :: "('n::{numeral,minus}) env \<Rightarrow> stmt" where
  "ArthurGEOG567_Final env = seq
     [Final_setup env,
      try_except (Final_body env)
        (except_Exception (\<lambda>e.
           seq [tell (AddError (''Script failed with error: '' @ str e)), raise e]))]"

definition run_Final :: "('n::{numeral,minus}) env \<Rightarrow> outcome \<times> event list" where
  "run_Final env = ArthurGEOG567_Final env []"

section \<open>Notions used to state the properties\<close>

text \<open>
  \<open>emits P m\<close>: whatever the log was, statement \<open>m\<close> only appends to it, and every event it
  appends satisfies \<open>P\<close>.
\<close>

definition emits :: "(event \<Rightarrow> bool) \<Rightarrow> stmt \<Rightarrow> bool" where
  "emits P m \<longleftrightarrow> (\<forall>evs. \<exists>new. snd (m evs) = evs @ new \<and> list_all P new)"

text \<open>No toolbox call on a source line before line \<open>n\<close> raises.\<close>

definition no_failure_before :: "'n env \<Rightarrow> nat \<Rightarrow> bool" where
  "no_failure_before env n \<longleftrightarrow> (\<forall>t l. l < n \<longrightarrow> fails env (t, l) = None)"

definition has_fields :: "'n env \<Rightarrow> bool" where
  "has_fields env \<longleftrightarrow> x_field \<in> set (table_fields env) \<and> y_field \<in> set (table_fields env)"

definition dem_is_raster :: "'n env \<Rightarrow> bool" where
  "dem_is_raster env \<longleftrightarrow> dem_Exists env \<and> dem_dataType env = ''RasterDataset''"

text \<open>
  The disjointness test in the words of the specification, on two rectangles \<open>A\<close> and \<open>B\<close>.
\<close>

definition aabb_disjoint :: "('n::ord) extent \<Rightarrow> 'n extent \<Rightarrow> bool" where
  "aabb_disjoint A B \<longleftrightarrow>
     XMin A > XMax B \<or> XMax A < XMin B \<or> YMin A > YMax B \<or> YMax A < YMin B"

definition as_extent :: "'n \<times> 'n \<times> 'n \<times> 'n \<Rightarrow> 'n extent" where
  "as_extent r = (case r of (xmin, ymin, xmax, ymax) \<Rightarrow>
     \<lparr>XMin = xmin, YMin = ymin, XMax = xmax, YMax = ymax\<rparr>)"

text \<open>The run reported the missing overlap to the user and raised.\<close>

definition flagged_no_overlap :: "outcome \<times> event list \<Rightarrow> bool" where
  "flagged_no_overlap run \<longleftrightarrow>
     fst run = Raised (Exn ValueError no_overlap_msg) \<and> AddError no_overlap_msg \<in> set (snd run)"




text \<open>The tools a log shows as called, in order.\<close>

fun tool_of :: "event \<Rightarrow> tool list" where
  "tool_of (Call s args) = [fst s]"
| "tool_of other = []"

definition tools_called :: "event list \<Rightarrow> tool list" where
  "tools_called evs = concat (map tool_of evs)"

text \<open>
  Two field names are case variants of each other when they differ and agree once their
  letters are put in lower case.
\<close>

definition lower_char :: "char \<Rightarrow> char" where
  "lower_char c =
     (case map_of (zip ''ABCDEFGHIJKLMNOPQRSTUVWXYZ'' ''abcdefghijklmnopqrstuvwxyz'') c of
        Some l \<Rightarrow> l
      | None \<Rightarrow> c)"

definition lower :: "string \<Rightarrow> string" where
  "lower s = map lower_char s"

definition case_variant :: "string \<Rightarrow> string \<Rightarrow> bool" where
  "case_variant a b \<longleftrightarrow> a \<noteq> b \<and> lower a = lower b"

text \<open>The two messages of lines 155 and 157 of \<^verbatim>\<open>ArthurGEOG567_Final.py\<close>.\<close>

definition point_added_msg :: string where
  "point_added_msg = ''Point Feature Class added to the map.''"

definition point_failed_msg :: string where
  "point_failed_msg = ''Failed to add Point Feature Class to the map.''"

text \<open>
  How a failed toolbox call shows in the outcome of a run. A call in the log is accounted
  for by outcome \<open>r\<close> when its site is exempt (in \<open>X\<close>), or the call returned, or it raised
  \<open>e\<close> and \<open>r\<close> is that \<open>e\<close> raised. A statement propagates failures when, started on a log in
  which every call returned, it ends with a log all of whose calls are accounted for by
  its outcome.
\<close>

fun accounted :: "'n env \<Rightarrow> site set \<Rightarrow> outcome \<Rightarrow> event \<Rightarrow> bool" where
  "accounted env X r (Call s args) =
     (s \<in> X \<or> fails env s = None \<or> (\<exists>e. fails env s = Some e \<and> r = Raised e))"
| "accounted env X r other = True"

fun is_Call :: "event \<Rightarrow> bool" where
  "is_Call (Call s args) = True"
| "is_Call other = False"

fun exempt :: "site set \<Rightarrow> event \<Rightarrow> bool" where
  "exempt X (Call s args) = (s \<in> X)"
| "exempt X other = True"

definition propagates :: "'n env \<Rightarrow> site set \<Rightarrow> stmt \<Rightarrow> bool" where
  "propagates env X m \<longleftrightarrow>
     (\<forall>evs. list_all (accounted env X Completed) evs \<longrightarrow>
        list_all (accounted env X (fst (m evs))) (snd (m evs)))"

text \<open>A statement that raises nothing, whatever the log it starts from.\<close>

definition completes :: "stmt \<Rightarrow> bool" where
  "completes m \<longleftrightarrow> (\<forall>evs. fst (m evs) = Completed)"

text \<open>
  An environment in which nothing fails: a table with both columns, a raster DEM, every
  layer added to the map.
\<close>

definition example_env :: "real env" where
  "example_env =
     \<lparr>fails = (\<lambda>s. None),
      parameter = (\<lambda>i. if i = 0 then ''points.csv'' else if i = 1 then ''out.gdb''
                       else if i = 2 then ''points'' else if i = 3 then ''dem.tif''
                       else ''clipped.tif''),
      path_join = (\<lambda>a b. a @ ''/'' @ b),
      str_float = (\<lambda>x. ''x''),
      table_fields = [''Longitude'', ''Latitude'', ''Name''],
      dem_Exists = True,
      dem_dataType = ''RasterDataset'',
      dem_spatialReference = WKID 3776,
      points_extent = \<lparr>XMin = 1000, YMin = 2000, XMax = 3000, YMax = 4000\<rparr>,
      dem_extent = \<lparr>XMin = 0, YMin = 0, XMax = 5000, YMax = 5000\<rparr>,
      added_layer = (\<lambda>l. Some (Layer ''layer'')),
      listed_layers = [Layer ''points'', Layer ''hillshade''],
      tool_messages = ''''\<rparr>"

text \<open>
  The example environment with a toolbox that has no \<^verbatim>\<open>SomeTool_management\<close>, as \<^verbatim>\<open>arcpy\<close>
  has none, and the example environment with a \<^verbatim>\<open>Clip\<close> that raises.
\<close>

definition missing_tool_env :: "real env" where
  "missing_tool_env =
     example_env\<lparr>fails := (\<lambda>s. if s = (SomeTool_management, 201)
        then Some (Exn AttributeError ''module arcpy has no attribute SomeTool_management'')
        else None)\<rparr>"

definition failing_clip_env :: "real env" where
  "failing_clip_env =
     example_env\<lparr>fails := (\<lambda>s. if fst s = Clip
        then Some (Exn ExecuteError ''ERROR 999999: Clip failed'')
        else None)\<rparr>"

text \<open>
  Three more toolboxes for line 201: the call raises an \<^verbatim>\<open>ExecuteError\<close> and
  \<^verbatim>\<open>GetMessages\<close> returns; the call raises an \<^verbatim>\<open>ExecuteError\<close> and \<^verbatim>\<open>GetMessages\<close>
  raises too; the call raises an exception outside \<^verbatim>\<open>Exception\<close>.
\<close>

definition execute_error_env :: "real env" where
  "execute_error_env =
     example_env\<lparr>fails := (\<lambda>s. if s = (SomeTool_management, 201)
        then Some (Exn ExecuteError ''ERROR 000732'') else None),
      tool_messages := ''ERROR 000732: Input does not exist''\<rparr>"

definition messages_fail_env :: "real env" where
  "messages_fail_env =
     example_env\<lparr>fails := (\<lambda>s. if s = (SomeTool_management, 201)
        then Some (Exn ExecuteError ''ERROR 000732'')
        else if s = (GetMessages, 204) then Some (Exn OtherException ''RuntimeError'')
        else None)\<rparr>"

definition interrupted_env :: "real env" where
  "interrupted_env =
     example_env\<lparr>fails := (\<lambda>s. if s = (SomeTool_management, 201)
        then Some (Exn BaseExceptionOnly ''KeyboardInterrupt'') else None)\<rparr>"

section \<open>How statements compose\<close>

lemma emits_call: "P (Call s args) \<Longrightarrow> emits P (call env s args)"
  by (simp add: emits_def call_def split: option.splits)

lemma emits_tell: "P ev \<Longrightarrow> emits P (tell ev)"
  by (simp add: emits_def tell_def)

lemma emits_raise: "emits P (raise e)"
  by (simp add: emits_def raise_def)

lemma emits_seq: "list_all (emits P) ms \<Longrightarrow> emits P (seq ms)"
proof (induction ms)
  case Nil
  show ?case by (simp add: emits_def)
next
  case (Cons m ms)
  then have m: "emits P m" and ms: "emits P (seq ms)" by simp_all
  show ?case unfolding emits_def
  proof
    fix evs
    obtain n1 where n1: "snd (m evs) = evs @ n1" "list_all P n1"
      using m unfolding emits_def by blast
    obtain n2 where n2: "snd (seq ms (evs @ n1)) = (evs @ n1) @ n2" "list_all P n2"
      using ms unfolding emits_def by blast
    show "\<exists>new. snd (seq (m # ms) evs) = evs @ new \<and> list_all P new"
    proof (cases "m evs")
      case (Pair r evs')
      with n1 have evs': "evs' = evs @ n1" by simp
      show ?thesis
      proof (cases r)
        case Completed
        with Pair evs' n1 n2 show ?thesis
          by (intro exI [of _ "n1 @ n2"]) simp
      next
        case (Raised e)
        with Pair evs' n1 show ?thesis
          by (intro exI [of _ n1]) simp
      qed
    qed
  qed
qed

lemma emits_for_each: "\<forall>x\<in>set xs. emits P (body x) \<Longrightarrow> emits P (for_each xs body)"
  unfolding for_each_def by (rule emits_seq) (simp add: list_all_iff)

lemma emits_try_except:
  assumes b: "emits P body" and h: "\<forall>e. emits P (handler e)"
  shows "emits P (try_except body handler)"
  unfolding emits_def
proof
  fix evs
  obtain n1 where n1: "snd (body evs) = evs @ n1" "list_all P n1"
    using b unfolding emits_def by blast
  show "\<exists>new. snd (try_except body handler evs) = evs @ new \<and> list_all P new"
  proof (cases "body evs")
    case (Pair r evs')
    with n1 have evs': "evs' = evs @ n1" by simp
    show ?thesis
    proof (cases r)
      case Completed
      with Pair evs' n1 show ?thesis
        by (intro exI [of _ n1]) (simp add: try_except_def)
    next
      case (Raised e)
      obtain n2 where n2: "snd (handler e (evs @ n1)) = (evs @ n1) @ n2" "list_all P n2"
        using h unfolding emits_def by blast
      with Raised Pair evs' n1 show ?thesis
        by (intro exI [of _ "n1 @ n2"]) (simp add: try_except_def)
    qed
  qed
qed

lemma emits_except_Exception: "\<forall>e. emits P (body e) \<Longrightarrow> emits P (except_Exception body e)"
  by (simp add: except_Exception_def emits_raise)

lemmas emits_rules =
  emits_call emits_tell emits_raise emits_seq emits_for_each emits_try_except
  emits_except_Exception

lemma emits_mem_iff: "emits P m \<Longrightarrow> \<not> P ev \<Longrightarrow> ev \<in> set (snd (m evs)) \<longleftrightarrow> ev \<in> set evs"
  unfolding emits_def by (metis Un_iff list_all_iff set_append)

lemma emits_extends: "emits P m \<Longrightarrow> ev \<in> set evs \<Longrightarrow> ev \<in> set (snd (m evs))"
  unfolding emits_def by (metis Un_iff set_append)

lemma emits_new: "emits P m \<Longrightarrow> ev \<in> set (snd (m [])) \<Longrightarrow> P ev"
  unfolding emits_def by (metis append_Nil list_all_iff)

lemma seq_append:
  "seq (xs @ ys) evs =
     (case seq xs evs of (Completed, evs') \<Rightarrow> seq ys evs' | (Raised e, evs') \<Rightarrow> (Raised e, evs'))"
  by (induction xs arbitrary: evs) (auto split: prod.splits outcome.splits)

lemma seq_prefix_Completed:
  "fst (seq xs evs) = Completed \<Longrightarrow> seq (xs @ ys) evs = seq ys (snd (seq xs evs))"
  by (cases "seq xs evs") (simp add: seq_append)

lemma seq_Cons_Completed:
  "fst (m evs) = Completed \<Longrightarrow> seq (m # ms) evs = seq ms (snd (m evs))"
  by (cases "m evs") simp

lemma seq_Cons_Raised:
  "fst (m evs) = Raised e \<Longrightarrow> seq (m # ms) evs = (Raised e, snd (m evs))"
  by (cases "m evs") simp

text \<open>A sequence that completes has completed each of its statements.\<close>

lemma seq_CompletedD:
  assumes "fst (seq ms evs) = Completed" and "list_all (emits (\<lambda>ev. True)) ms" and "m \<in> set ms"
  shows "\<exists>a. fst (m a) = Completed \<and> set (snd (m a)) \<subseteq> set (snd (seq ms evs))"
  using assms
proof (induction ms arbitrary: evs)
  case Nil
  then show ?case by simp
next
  case (Cons x xs)
  from Cons.prems(1) have x: "fst (x evs) = Completed"
    by (cases "x evs") (auto split: outcome.splits)
  then have step: "seq (x # xs) evs = seq xs (snd (x evs))"
    by (rule seq_Cons_Completed)
  from Cons.prems(2) have xs: "list_all (emits (\<lambda>ev. True)) xs" by simp
  show ?case
  proof (cases "m = x")
    case True
    have "set (snd (x evs)) \<subseteq> set (snd (seq xs (snd (x evs))))"
      using emits_extends [OF emits_seq [OF xs]] by blast
    with True x step show ?thesis by (intro exI [of _ evs]) simp
  next
    case False
    with Cons.prems(3) have "m \<in> set xs" by simp
    moreover from Cons.prems(1) step have "fst (seq xs (snd (x evs))) = Completed" by simp
    ultimately show ?thesis using Cons.IH xs step by metis
  qed
qed

lemma seq_Completed_call:
  assumes "fst (seq ms evs) = Completed" and "list_all (emits (\<lambda>ev. True)) ms"
    and "call env s args \<in> set ms"
  shows "fails env s = None \<and> Call s args \<in> set (snd (seq ms evs))"
proof -
  obtain a where a: "fst (call env s args a) = Completed"
      "set (snd (call env s args a)) \<subseteq> set (snd (seq ms evs))"
    using seq_CompletedD [OF assms] by blast
  from a(1) have "fails env s = None" by (simp add: call_def split: option.splits)
  moreover from this a(2) have "Call s args \<in> set (snd (seq ms evs))" by (simp add: call_def)
  ultimately show ?thesis by simp
qed

text \<open>A handler that logs and raises again never completes.\<close>

lemma try_except_reraise_Completed:
  assumes "fst (try_except body (except_Exception (\<lambda>e. seq [tell (f e), raise e])) evs) = Completed"
  shows "fst (body evs) = Completed
    \<and> snd (try_except body (except_Exception (\<lambda>e. seq [tell (f e), raise e])) evs) = snd (body evs)"
  using assms
  by (cases "body evs")
     (auto simp: try_except_def except_Exception_def tell_def raise_def
        split: outcome.splits if_splits)

lemma no_failure_beforeD: "no_failure_before env n \<Longrightarrow> l < n \<Longrightarrow> fails env (t, l) = None"
  by (simp add: no_failure_before_def)

declare seq.simps [simp del]

lemmas exec =
  seq.simps call_def tell_def raise_def for_each_def try_except_def except_Exception_def

section \<open>Runs that complete\<close>

lemmas clip_dem_sections =
  clip_dem_setup_def clip_dem_points_def clip_dem_validate_dem_def clip_dem_extents_def
  clip_dem_check_overlap_def clip_dem_clip_def clip_dem_finish_def check_fields_def

lemmas Final_sections =
  Final_setup_def Final_points_def Final_validate_dem_def Final_clip_def Final_derive_def
  Final_extract_def Final_add_layers_def Final_order_layers_def Final_point_layer_def
  Final_some_tool_def Final_finish_def check_fields_def

lemma clip_dem_sections_emit:
  "list_all (emits (\<lambda>ev. True))
     [clip_dem_setup env, clip_dem_points env, clip_dem_validate_dem env, clip_dem_extents env,
      clip_dem_check_overlap env, clip_dem_clip env, clip_dem_finish env]"
  by (simp add: clip_dem_sections emits_rules Let_def split: prod.splits)

lemma Final_sections_emit:
  "list_all (emits (\<lambda>ev. True))
     [Final_points env, Final_validate_dem env, Final_clip env, Final_derive env,
      Final_extract env, Final_add_layers env, Final_order_layers env, Final_point_layer env,
      Final_some_tool env, Final_finish env]"
  by (simp add: Final_sections emits_rules Let_def split: prod.splits option.splits)

lemma clip_dem_Completed_section:
  assumes "fst (run_clip_dem env) = Completed"
    and "S \<in> set [clip_dem_setup env, clip_dem_points env, clip_dem_validate_dem env,
      clip_dem_extents env, clip_dem_check_overlap env, clip_dem_clip env, clip_dem_finish env]"
  shows "\<exists>a. fst (S a) = Completed \<and> set (snd (S a)) \<subseteq> set (snd (run_clip_dem env))"
  using seq_CompletedD [OF _ clip_dem_sections_emit assms(2), of "[]"] assms(1)
  by (simp add: run_clip_dem_def clip_dem_def)

lemma Final_Completed_section:
  assumes "fst (run_Final env) = Completed"
    and "S \<in> set [Final_points env, Final_validate_dem env, Final_clip env, Final_derive env,
      Final_extract env, Final_add_layers env, Final_order_layers env, Final_point_layer env,
      Final_some_tool env, Final_finish env]"
  shows "\<exists>a. fst (S a) = Completed \<and> set (snd (S a)) \<subseteq> set (snd (run_Final env))"
proof -
  let ?guarded = "try_except (Final_body env)
        (except_Exception (\<lambda>e.
           seq [tell (AddError (''Script failed with error: '' @ str e)), raise e]))"
  have "list_all (emits (\<lambda>ev. True)) [Final_setup env, ?guarded]"
    using Final_sections_emit [of env]
    by (simp add: Final_setup_def Final_body_def emits_rules)
  from seq_CompletedD [OF _ this, of "[]" ?guarded] assms(1)
  obtain a where a: "fst (?guarded a) = Completed" "set (snd (?guarded a)) \<subseteq> set (snd (run_Final env))"
    by (auto simp: run_Final_def ArthurGEOG567_Final_def)
  from try_except_reraise_Completed [OF a(1)] a(2)
  have body: "fst (Final_body env a) = Completed"
      "set (snd (Final_body env a)) \<subseteq> set (snd (run_Final env))"
    by simp_all
  from seq_CompletedD [OF _ Final_sections_emit assms(2), of a] body
  show ?thesis unfolding Final_body_def by blast
qed

lemma section_Completed_call:
  assumes "\<exists>a. fst (seq ms a) = Completed \<and> set (snd (seq ms a)) \<subseteq> E"
    and "list_all (emits (\<lambda>ev. True)) ms" and "call env s args \<in> set ms"
  shows "fails env s = None \<and> Call s args \<in> E"
  using assms seq_Completed_call by blast

text \<open>Both scripts complete in the example environment.\<close>

lemma example_Final_completes: "fst (run_Final example_env) = Completed"
  by (simp add: run_Final_def ArthurGEOG567_Final_def Final_body_def Final_sections exec example_env_def Let_def x_field_def y_field_def)

lemma example_clip_dem_completes: "fst (run_clip_dem example_env) = Completed"
  by (simp add: run_clip_dem_def clip_dem_def clip_dem_sections exec example_env_def Let_def x_field_def y_field_def
      clip_dem_rectangle_def buffer_extent_def clip_dem_buffer_def)

section \<open>clip\_dem.py: the overlap check\<close>

lemma clip_dem_tail_no_overlap_msg:
  "emits (\<lambda>ev. ev \<noteq> AddError no_overlap_msg) (seq [clip_dem_clip env, clip_dem_finish env])"
  by (simp add: clip_dem_clip_def clip_dem_finish_def emits_rules no_overlap_msg_def)

lemma clip_dem_to_line_68:
  assumes "no_failure_before env 71" "has_fields env" "dem_is_raster env"
  shows "fst (seq [clip_dem_setup env, clip_dem_points env, clip_dem_validate_dem env,
                   clip_dem_extents env] []) = Completed"
  using assms
  by (simp add: clip_dem_setup_def clip_dem_points_def clip_dem_validate_dem_def
        check_fields_def clip_dem_extents_def exec has_fields_def dem_is_raster_def
        no_failure_beforeD [of env 71] Let_def split: prod.splits)

lemma clip_dem_line_68_no_overlap_msg:
  "AddError no_overlap_msg \<notin> set (snd (seq [clip_dem_setup env, clip_dem_points env,
      clip_dem_validate_dem env, clip_dem_extents env] []))"
proof -
  have "emits (\<lambda>ev. ev \<noteq> AddError no_overlap_msg)
          (seq [clip_dem_setup env, clip_dem_points env, clip_dem_validate_dem env,
                clip_dem_extents env])"
    by (simp add: clip_dem_setup_def clip_dem_points_def clip_dem_validate_dem_def
          check_fields_def clip_dem_extents_def emits_rules Let_def no_overlap_msg_def
          fields_msg_def dem_missing_msg_def dem_not_raster_msg_def quote_def
          split: prod.splits)
  from emits_mem_iff [OF this, of "AddError no_overlap_msg" "[]"] show ?thesis by simp
qed

lemma clip_dem_flags_iff:
  assumes "no_failure_before env 71" "has_fields env" "dem_is_raster env"
  shows "flagged_no_overlap (run_clip_dem env)
     \<longleftrightarrow> aabb_disjoint (as_extent (clip_dem_rectangle env)) (dem_extent env)"
proof -
  define T where "T = snd (seq [clip_dem_setup env, clip_dem_points env,
                   clip_dem_validate_dem env, clip_dem_extents env] [])"
  have run: "run_clip_dem env
      = seq [clip_dem_check_overlap env, clip_dem_clip env, clip_dem_finish env] T"
    using seq_prefix_Completed [OF clip_dem_to_line_68 [OF assms],
        of "[clip_dem_check_overlap env, clip_dem_clip env, clip_dem_finish env]"]
    by (simp add: run_clip_dem_def clip_dem_def T_def)
  have T: "AddError no_overlap_msg \<notin> set T"
    unfolding T_def by (rule clip_dem_line_68_no_overlap_msg)
  show ?thesis
  proof (cases "aabb_disjoint (as_extent (clip_dem_rectangle env)) (dem_extent env)")
    case True
    then have "clip_dem_check_overlap env T
        = (Raised (Exn ValueError no_overlap_msg), T @ [AddError no_overlap_msg])"
      by (auto simp: clip_dem_check_overlap_def aabb_disjoint_def as_extent_def exec Let_def
            split: prod.splits)
    with True show ?thesis
      by (simp add: run flagged_no_overlap_def seq.simps)
  next
    case False
    then have "clip_dem_check_overlap env T = (Completed, T)"
      by (auto simp: clip_dem_check_overlap_def aabb_disjoint_def as_extent_def exec Let_def
            split: prod.splits)
    then have "run_clip_dem env = seq [clip_dem_clip env, clip_dem_finish env] T"
      by (simp add: run seq_Cons_Completed)
    with False T show ?thesis
      by (simp add: flagged_no_overlap_def emits_mem_iff [OF clip_dem_tail_no_overlap_msg])
  qed
qed

text \<open>
  Claim C1. When \<^verbatim>\<open>clip_dem.py\<close> reaches its overlap check (no toolbox call before line 71
  raises, the table has both columns, the DEM is a raster dataset), it reports the error
  "The extent of the points does not overlap with the extent of the DEM raster." and raises
  a \<^verbatim>\<open>ValueError\<close> with that text if and only if the buffered rectangle \<open>A\<close> of the points
  and the rectangle \<open>B\<close> of the DEM satisfy \<open>A.xmin > B.xmax\<close> or \<open>A.xmax < B.xmin\<close> or
  \<open>A.ymin > B.ymax\<close> or \<open>A.ymax < B.ymin\<close>. On \<open>A = (0, 0, 10, 10)\<close> the test holds for
  \<open>B = (20, 20, 30, 30)\<close> and fails for \<open>B = (5, 5, 15, 15)\<close>.
\<close>

theorem clip_dem_flags_exactly_disjoint_extents:
  "(no_failure_before env 71 \<and> has_fields env \<and> dem_is_raster env \<longrightarrow>
      (flagged_no_overlap (run_clip_dem env)
        \<longleftrightarrow> aabb_disjoint (as_extent (clip_dem_rectangle env)) (dem_extent env)))
   \<and> aabb_disjoint \<lparr>XMin = 0, YMin = 0, XMax = 10, YMax = 10\<rparr>
        \<lparr>XMin = 20, YMin = 20, XMax = 30, YMax = (30::real)\<rparr>
   \<and> \<not> aabb_disjoint \<lparr>XMin = 0, YMin = 0, XMax = 10, YMax = 10\<rparr>
        \<lparr>XMin = 5, YMin = 5, XMax = 15, YMax = (15::real)\<rparr>"
  using clip_dem_flags_iff [of env] by (simp add: aabb_disjoint_def)

text \<open>
  The two rectangle pairs of the claim, run through the script: points whose buffered
  rectangle is \<open>(0, 0, 10, 10)\<close> against a DEM at \<open>(20, 20, 30, 30)\<close> are flagged, against a
  DEM at \<open>(5, 5, 15, 15)\<close> they are not.
\<close>

theorem clip_dem_flags_exactly_disjoint_extents_witness:
  "no_failure_before
     (example_env\<lparr>points_extent := \<lparr>XMin = 200000, YMin = 200000, XMax = -199990, YMax = -199990\<rparr>,
                  dem_extent := \<lparr>XMin = 20, YMin = 20, XMax = 30, YMax = 30\<rparr>\<rparr>) 71
   \<and> has_fields example_env \<and> dem_is_raster example_env
   \<and> flagged_no_overlap (run_clip_dem
       (example_env\<lparr>points_extent := \<lparr>XMin = 200000, YMin = 200000, XMax = -199990, YMax = -199990\<rparr>,
                    dem_extent := \<lparr>XMin = 20, YMin = 20, XMax = 30, YMax = 30\<rparr>\<rparr>))
   \<and> \<not> flagged_no_overlap (run_clip_dem
       (example_env\<lparr>points_extent := \<lparr>XMin = 200000, YMin = 200000, XMax = -199990, YMax = -199990\<rparr>,
                    dem_extent := \<lparr>XMin = 5, YMin = 5, XMax = 15, YMax = 15\<rparr>\<rparr>))"
  using clip_dem_flags_exactly_disjoint_extents
      [of "example_env\<lparr>points_extent := \<lparr>XMin = 200000, YMin = 200000, XMax = -199990, YMax = -199990\<rparr>,
                    dem_extent := \<lparr>XMin = 20, YMin = 20, XMax = 30, YMax = 30\<rparr>\<rparr>"]
    clip_dem_flags_exactly_disjoint_extents
      [of "example_env\<lparr>points_extent := \<lparr>XMin = 200000, YMin = 200000, XMax = -199990, YMax = -199990\<rparr>,
                    dem_extent := \<lparr>XMin = 5, YMin = 5, XMax = 15, YMax = 15\<rparr>\<rparr>"]
  by (simp add: example_env_def no_failure_before_def has_fields_def dem_is_raster_def
        x_field_def y_field_def aabb_disjoint_def as_extent_def clip_dem_rectangle_def
        buffer_extent_def clip_dem_buffer_def)

section \<open>The buffer around the extent of the points\<close>

lemma buffer_extent_bounds:
  "buffer_extent m \<lparr>XMin = xmin, YMin = ymin, XMax = xmax, YMax = ymax\<rparr>
     = (xmin - m, ymin - m, xmax + m, ymax + m)"
  by (simp add: buffer_extent_def)

lemma clip_dem_rectangle_bounds:
  "clip_dem_rectangle env
     = (XMin (points_extent env) - 200000, YMin (points_extent env) - 200000,
        XMax (points_extent env) + 200000, YMax (points_extent env) + 200000)"
  by (simp add: clip_dem_rectangle_def buffer_extent_def clip_dem_buffer_def)

lemma Final_rectangle_bounds:
  "Final_rectangle env
     = (XMin (points_extent env) - 5000, YMin (points_extent env) - 5000,
        XMax (points_extent env) + 5000, YMax (points_extent env) + 5000)"
  by (simp add: Final_rectangle_def buffer_extent_def Final_buffer_def)

lemma clip_dem_emits_Clip:
  "emits (\<lambda>ev. \<forall>l a. ev = Call (Clip, l) a \<longrightarrow>
        l = 77 \<and> a = [Str (dem_path env), Str (rectangle_text env (clip_dem_rectangle env)),
                Str (clipped_dem env), Str '''', Str '''', Str ''ClippingGeometry'',
                Str ''MAINTAIN_EXTENT''])
     (clip_dem env)"
  by (simp add: clip_dem_def clip_dem_sections emits_rules Let_def split: prod.splits)

lemma Final_emits_Clip:
  "emits (\<lambda>ev. \<forall>l a. ev = Call (Clip, l) a \<longrightarrow>
        l = 69 \<and> a = [Str projected_dem, Str (rectangle_text env (Final_rectangle env)),
         Str (clipped_dem env), Str ''#'', Str ''#'', Str ''NONE'', Str ''MAINTAIN_EXTENT''])
     (ArthurGEOG567_Final env)"
  by (simp add: ArthurGEOG567_Final_def Final_body_def Final_sections emits_rules Let_def
        split: prod.splits option.splits)

lemma clip_dem_Completed_Clip:
  assumes "fst (run_clip_dem env) = Completed"
  shows "Call (Clip, 77) [Str (dem_path env), Str (rectangle_text env (clip_dem_rectangle env)),
                Str (clipped_dem env), Str '''', Str '''', Str ''ClippingGeometry'',
                Str ''MAINTAIN_EXTENT''] \<in> set (snd (run_clip_dem env))"
proof -
  obtain a where a: "fst (clip_dem_clip env a) = Completed"
      "set (snd (clip_dem_clip env a)) \<subseteq> set (snd (run_clip_dem env))"
    using clip_dem_Completed_section [OF assms, of "clip_dem_clip env"] by auto
  note b = try_except_reraise_Completed [OF a(1) [unfolded clip_dem_clip_def]]
  have "Call (Clip, 77) [Str (dem_path env), Str (rectangle_text env (clip_dem_rectangle env)),
                Str (clipped_dem env), Str '''', Str '''', Str ''ClippingGeometry'',
                Str ''MAINTAIN_EXTENT''] \<in> set (snd (clip_dem_clip env a))"
    unfolding clip_dem_clip_def
    using seq_Completed_call [OF conjunct1 [OF b], of env "(Clip, 77)"] conjunct2 [OF b]
    by (simp add: emits_rules)
  with a(2) show ?thesis by blast
qed

lemma Final_Completed_Clip:
  assumes "fst (run_Final env) = Completed"
  shows "Call (Clip, 69) [Str projected_dem, Str (rectangle_text env (Final_rectangle env)),
         Str (clipped_dem env), Str ''#'', Str ''#'', Str ''NONE'', Str ''MAINTAIN_EXTENT'']
       \<in> set (snd (run_Final env))"
proof -
  have "\<exists>a. fst (Final_clip env a) = Completed
      \<and> set (snd (Final_clip env a)) \<subseteq> set (snd (run_Final env))"
    by (rule Final_Completed_section [OF assms(1)]) simp
  from section_Completed_call [OF this [unfolded Final_clip_def], of env "(Clip, 69)"
     "[Str projected_dem, Str (rectangle_text env (Final_rectangle env)),
         Str (clipped_dem env), Str ''#'', Str ''#'', Str ''NONE'', Str ''MAINTAIN_EXTENT'']"]
  show ?thesis by (simp add: emits_rules)
qed

text \<open>
  Claim C2. For every rectangle and every margin \<open>m\<close>, the four assignments of the buffer
  step leave exactly \<open>(xmin - m, ymin - m, xmax + m, ymax + m)\<close>. \<^verbatim>\<open>clip_dem.py\<close> applies the
  step with \<open>m = 200000\<close> and \<^verbatim>\<open>ArthurGEOG567_Final.py\<close> with \<open>m = 5000\<close> to the extent of the
  projected points, and the rectangle each script hands to \<^verbatim>\<open>Clip\<close> is the text of these
  four numbers: every \<^verbatim>\<open>Clip\<close> call of a run has it, and a run that completes has made
  the call.
\<close>

theorem buffer_expansion_exact:
  "buffer_extent m \<lparr>XMin = xmin, YMin = ymin, XMax = xmax, YMax = ymax\<rparr>
     = (xmin - m, ymin - m, xmax + m, ymax + m)
   \<and> clip_dem_rectangle env
     = (XMin (points_extent env) - 200000, YMin (points_extent env) - 200000,
        XMax (points_extent env) + 200000, YMax (points_extent env) + 200000)
   \<and> Final_rectangle env
     = (XMin (points_extent env) - 5000, YMin (points_extent env) - 5000,
        XMax (points_extent env) + 5000, YMax (points_extent env) + 5000)
   \<and> (\<forall>ev\<in>set (snd (run_clip_dem env)). \<forall>l a. ev = Call (Clip, l) a \<longrightarrow>
        a = [Str (dem_path env),
             Str (rectangle_text env
               (XMin (points_extent env) - 200000, YMin (points_extent env) - 200000,
                XMax (points_extent env) + 200000, YMax (points_extent env) + 200000)),
             Str (clipped_dem env), Str '''', Str '''', Str ''ClippingGeometry'',
             Str ''MAINTAIN_EXTENT''])
   \<and> (fst (run_clip_dem env) = Completed \<longrightarrow>
        Call (Clip, 77)
          [Str (dem_path env),
           Str (rectangle_text env
             (XMin (points_extent env) - 200000, YMin (points_extent env) - 200000,
              XMax (points_extent env) + 200000, YMax (points_extent env) + 200000)),
           Str (clipped_dem env), Str '''', Str '''', Str ''ClippingGeometry'',
           Str ''MAINTAIN_EXTENT'']
          \<in> set (snd (run_clip_dem env)))
   \<and> (\<forall>ev\<in>set (snd (run_Final env)). \<forall>l a. ev = Call (Clip, l) a \<longrightarrow>
        a = [Str projected_dem,
             Str (rectangle_text env
               (XMin (points_extent env) - 5000, YMin (points_extent env) - 5000,
                XMax (points_extent env) + 5000, YMax (points_extent env) + 5000)),
             Str (clipped_dem env), Str ''#'', Str ''#'', Str ''NONE'',
             Str ''MAINTAIN_EXTENT''])
   \<and> (fst (run_Final env) = Completed \<longrightarrow>
        Call (Clip, 69)
          [Str projected_dem,
           Str (rectangle_text env
             (XMin (points_extent env) - 5000, YMin (points_extent env) - 5000,
              XMax (points_extent env) + 5000, YMax (points_extent env) + 5000)),
           Str (clipped_dem env), Str ''#'', Str ''#'', Str ''NONE'',
           Str ''MAINTAIN_EXTENT'']
          \<in> set (snd (run_Final env)))"
proof (intro conjI ballI impI)
  show "buffer_extent m \<lparr>XMin = xmin, YMin = ymin, XMax = xmax, YMax = ymax\<rparr>
     = (xmin - m, ymin - m, xmax + m, ymax + m)"
    by (rule buffer_extent_bounds)
next
  show "clip_dem_rectangle env
     = (XMin (points_extent env) - 200000, YMin (points_extent env) - 200000,
        XMax (points_extent env) + 200000, YMax (points_extent env) + 200000)"
    by (rule clip_dem_rectangle_bounds)
next
  show "Final_rectangle env
     = (XMin (points_extent env) - 5000, YMin (points_extent env) - 5000,
        XMax (points_extent env) + 5000, YMax (points_extent env) + 5000)"
    by (rule Final_rectangle_bounds)
next
  fix ev assume "ev \<in> set (snd (run_clip_dem env))"
  from emits_new [OF clip_dem_emits_Clip this [unfolded run_clip_dem_def]]
  show "\<forall>l a. ev = Call (Clip, l) a \<longrightarrow>
        a = [Str (dem_path env),
             Str (rectangle_text env
               (XMin (points_extent env) - 200000, YMin (points_extent env) - 200000,
                XMax (points_extent env) + 200000, YMax (points_extent env) + 200000)),
             Str (clipped_dem env), Str '''', Str '''', Str ''ClippingGeometry'',
             Str ''MAINTAIN_EXTENT'']"
    by (simp add: clip_dem_rectangle_bounds)
next
  assume "fst (run_clip_dem env) = Completed"
  from clip_dem_Completed_Clip [OF this]
  show "Call (Clip, 77)
          [Str (dem_path env),
           Str (rectangle_text env
             (XMin (points_extent env) - 200000, YMin (points_extent env) - 200000,
              XMax (points_extent env) + 200000, YMax (points_extent env) + 200000)),
           Str (clipped_dem env), Str '''', Str '''', Str ''ClippingGeometry'',
           Str ''MAINTAIN_EXTENT'']
          \<in> set (snd (run_clip_dem env))"
    by (simp add: clip_dem_rectangle_bounds)
next
  fix ev assume "ev \<in> set (snd (run_Final env))"
  from emits_new [OF Final_emits_Clip this [unfolded run_Final_def]]
  show "\<forall>l a. ev = Call (Clip, l) a \<longrightarrow>
        a = [Str projected_dem,
             Str (rectangle_text env
               (XMin (points_extent env) - 5000, YMin (points_extent env) - 5000,
                XMax (points_extent env) + 5000, YMax (points_extent env) + 5000)),
             Str (clipped_dem env), Str ''#'', Str ''#'', Str ''NONE'',
             Str ''MAINTAIN_EXTENT'']"
    by (simp add: Final_rectangle_bounds)
next
  assume "fst (run_Final env) = Completed"
  from Final_Completed_Clip [OF this]
  show "Call (Clip, 69)
          [Str projected_dem,
           Str (rectangle_text env
             (XMin (points_extent env) - 5000, YMin (points_extent env) - 5000,
              XMax (points_extent env) + 5000, YMax (points_extent env) + 5000)),
           Str (clipped_dem env), Str ''#'', Str ''#'', Str ''NONE'',
           Str ''MAINTAIN_EXTENT'']
          \<in> set (snd (run_Final env))"
    by (simp add: Final_rectangle_bounds)
qed

theorem buffer_expansion_exact_witness:
  "buffer_extent (7::real) \<lparr>XMin = 1, YMin = 2, XMax = 3, YMax = 4\<rparr> = (-6, -5, 10, 11)
   \<and> clip_dem_rectangle example_env = (-199000, -198000, 203000, 204000)
   \<and> Final_rectangle example_env = (-4000, -3000, 8000, 9000)
   \<and> fst (run_clip_dem example_env) = Completed
   \<and> Call (Clip, 77)
        [Str ''dem.tif'', Str (rectangle_text example_env (-199000, -198000, 203000, 204000)),
         Str ''clipped.tif'', Str '''', Str '''', Str ''ClippingGeometry'',
         Str ''MAINTAIN_EXTENT'']
        \<in> set (snd (run_clip_dem example_env))
   \<and> fst (run_Final example_env) = Completed
   \<and> Call (Clip, 69)
        [Str projected_dem, Str (rectangle_text example_env (-4000, -3000, 8000, 9000)),
         Str ''clipped.tif'', Str ''#'', Str ''#'', Str ''NONE'', Str ''MAINTAIN_EXTENT'']
        \<in> set (snd (run_Final example_env))"
  using buffer_expansion_exact [of "7::real" 1 2 3 4 example_env]
    example_clip_dem_completes example_Final_completes
  by (simp add: example_env_def dem_path_def clipped_dem_def)

section \<open>The validation of the inputs\<close>

lemma check_fields_exact:
  "check_fields fs evs =
     (if x_field \<in> set fs \<and> y_field \<in> set fs then (Completed, evs)
      else (Raised (Exn ValueError fields_msg), evs @ [AddError fields_msg]))"
  by (simp add: check_fields_def exec)

lemma check_table_fields:
  "check_fields (table_fields env) evs =
     (if has_fields env then (Completed, evs)
      else (Raised (Exn ValueError fields_msg), evs @ [AddError fields_msg]))"
  by (simp add: check_fields_exact has_fields_def)

lemma clip_dem_rejects_missing_fields:
  assumes "no_failure_before env 30" "\<not> has_fields env"
  shows "run_clip_dem env =
     (Raised (Exn ValueError fields_msg),
      [Call (GetParameterAsText, 5) [Num 0], Call (GetParameterAsText, 6) [Num 1],
       Call (GetParameterAsText, 7) [Num 2], Call (GetParameterAsText, 8) [Num 3],
       Call (GetParameterAsText, 9) [Num 4], Call (SpatialReference, 12) [Num 4326],
       Call (SpatialReference, 15) [Num 4269], Call (SpatialReference, 18) [Num 3776],
       Call (TableToTable_conversion, 22)
         [Str (input_csv env), Str ''in_memory'', Str ''temp_table''],
       Call (ListFields, 29) [Str temp_table],
       AddError fields_msg])"
  using assms
  by (simp add: run_clip_dem_def clip_dem_def clip_dem_setup_def clip_dem_points_def
        check_table_fields seq.simps call_def no_failure_beforeD [of env 30])

lemma Final_rejects_missing_fields:
  assumes "no_failure_before env 28" "\<not> has_fields env"
  shows "run_Final env =
     (Raised (Exn ValueError fields_msg),
      [Call (GetParameterAsText, 5) [Num 0], Call (GetParameterAsText, 6) [Num 1],
       Call (GetParameterAsText, 7) [Num 2], Call (GetParameterAsText, 8) [Num 3],
       Call (GetParameterAsText, 9) [Num 4], Call (SpatialReference, 12) [Num 4326],
       Call (SpatialReference, 15) [Num 3776],
       Call (TableToTable_conversion, 20)
         [Str (input_csv env), Str ''in_memory'', Str ''temp_table''],
       Call (ListFields, 27) [Str temp_table],
       AddError fields_msg,
       AddError (''Script failed with error: '' @ fields_msg)])"
  using assms
  by (simp add: run_Final_def ArthurGEOG567_Final_def Final_body_def Final_setup_def
        Final_points_def check_table_fields exec
        no_failure_beforeD [of env 28])

lemma lower_x_field: "lower x_field = ''longitude''"
  by (simp add: lower_def lower_char_def x_field_def)

lemma lower_y_field: "lower y_field = ''latitude''"
  by (simp add: lower_def lower_char_def y_field_def)

lemma case_variants_lack_fields:
  assumes "\<forall>f\<in>set fs. case_variant f x_field \<or> case_variant f y_field"
  shows "x_field \<notin> set fs" and "y_field \<notin> set fs"
proof -
  have "lower x_field \<noteq> lower y_field" by (simp add: lower_x_field lower_y_field)
  with assms show "x_field \<notin> set fs" and "y_field \<notin> set fs"
    unfolding case_variant_def by metis+
qed

text \<open>
  Claim C3. When the table read from the CSV lacks \<open>Longitude\<close> or \<open>Latitude\<close> among its
  field names (and no toolbox call up to \<^verbatim>\<open>ListFields\<close> raised), each script reports
  "CSV must contain fields 'Longitude' and 'Latitude'" with \<^verbatim>\<open>AddError\<close> and raises a
  \<^verbatim>\<open>ValueError\<close> with that text. The toolbox calls made by then are the parameter and
  spatial-reference calls, \<^verbatim>\<open>TableToTable_conversion\<close> and \<^verbatim>\<open>ListFields\<close>: neither
  \<^verbatim>\<open>XYTableToPoint\<close> nor any later tool has been called.
\<close>

theorem missing_fields_rejected_before_geometry:
  "(no_failure_before env 30 \<and> \<not> has_fields env \<longrightarrow>
      fst (run_clip_dem env) = Raised (Exn ValueError fields_msg)
      \<and> AddError fields_msg \<in> set (snd (run_clip_dem env))
      \<and> tools_called (snd (run_clip_dem env)) =
          [GetParameterAsText, GetParameterAsText, GetParameterAsText, GetParameterAsText,
           GetParameterAsText, SpatialReference, SpatialReference, SpatialReference,
           TableToTable_conversion, ListFields])
   \<and> (no_failure_before env 28 \<and> \<not> has_fields env \<longrightarrow>
      fst (run_Final env) = Raised (Exn ValueError fields_msg)
      \<and> AddError fields_msg \<in> set (snd (run_Final env))
      \<and> tools_called (snd (run_Final env)) =
          [GetParameterAsText, GetParameterAsText, GetParameterAsText, GetParameterAsText,
           GetParameterAsText, SpatialReference, SpatialReference,
           TableToTable_conversion, ListFields])"
  using clip_dem_rejects_missing_fields [of env] Final_rejects_missing_fields [of env]
  by (simp add: tools_called_def)

theorem missing_fields_rejected_before_geometry_witness:
  "no_failure_before (example_env\<lparr>table_fields := [''Name'', ''Latitude'']\<rparr>) 30
   \<and> \<not> has_fields (example_env\<lparr>table_fields := [''Name'', ''Latitude'']\<rparr>)
   \<and> fst (run_clip_dem (example_env\<lparr>table_fields := [''Name'', ''Latitude'']\<rparr>))
       = Raised (Exn ValueError fields_msg)
   \<and> XYTableToPoint \<notin> set (tools_called
         (snd (run_clip_dem (example_env\<lparr>table_fields := [''Name'', ''Latitude'']\<rparr>))))
   \<and> fst (run_Final (example_env\<lparr>table_fields := [''Name'', ''Latitude'']\<rparr>))
       = Raised (Exn ValueError fields_msg)
   \<and> XYTableToPoint \<notin> set (tools_called
         (snd (run_Final (example_env\<lparr>table_fields := [''Name'', ''Latitude'']\<rparr>))))"
  using missing_fields_rejected_before_geometry [of "example_env\<lparr>table_fields := [''Name'', ''Latitude'']\<rparr>"]
  by (simp add: example_env_def no_failure_before_def has_fields_def x_field_def y_field_def)

text \<open>
  Claim C9. The field check accepts exactly the tables that have the strings \<open>Longitude\<close>
  and \<open>Latitude\<close> among their field names; membership is equality of strings. A table
  all of whose field names are case variants of the two names (\<open>longitude\<close>, \<open>LATITUDE\<close>)
  is rejected by the check, and by both scripts when they reach it.
\<close>

theorem field_check_is_case_sensitive:
  "check_fields fs evs =
     (if ''Longitude'' \<in> set fs \<and> ''Latitude'' \<in> set fs then (Completed, evs)
      else (Raised (Exn ValueError fields_msg), evs @ [AddError fields_msg]))
   \<and> ((\<forall>f\<in>set fs. case_variant f ''Longitude'' \<or> case_variant f ''Latitude'') \<longrightarrow>
        check_fields fs evs = (Raised (Exn ValueError fields_msg), evs @ [AddError fields_msg]))
   \<and> ((\<forall>f\<in>set (table_fields env). case_variant f ''Longitude'' \<or> case_variant f ''Latitude'') \<longrightarrow>
        (no_failure_before env 30 \<longrightarrow>
           fst (run_clip_dem env) = Raised (Exn ValueError fields_msg)
           \<and> AddError fields_msg \<in> set (snd (run_clip_dem env)))
        \<and> (no_failure_before env 28 \<longrightarrow>
           fst (run_Final env) = Raised (Exn ValueError fields_msg)
           \<and> AddError fields_msg \<in> set (snd (run_Final env))))"
proof (intro conjI impI)
  show "check_fields fs evs =
     (if ''Longitude'' \<in> set fs \<and> ''Latitude'' \<in> set fs then (Completed, evs)
      else (Raised (Exn ValueError fields_msg), evs @ [AddError fields_msg]))"
    using check_fields_exact [of fs evs] by (simp add: x_field_def y_field_def)
next
  assume "\<forall>f\<in>set fs. case_variant f ''Longitude'' \<or> case_variant f ''Latitude''"
  then have "x_field \<notin> set fs"
    using case_variants_lack_fields(1) [of fs] by (simp add: x_field_def y_field_def)
  then show "check_fields fs evs
      = (Raised (Exn ValueError fields_msg), evs @ [AddError fields_msg])"
    by (simp add: check_fields_exact)
next
  assume v: "\<forall>f\<in>set (table_fields env). case_variant f ''Longitude'' \<or> case_variant f ''Latitude''"
    and r: "no_failure_before env 30"
  from v have "\<not> has_fields env"
    using case_variants_lack_fields(1) [of "table_fields env"]
    by (simp add: x_field_def y_field_def has_fields_def)
  from clip_dem_rejects_missing_fields [OF r this]
  show "fst (run_clip_dem env) = Raised (Exn ValueError fields_msg)"
    and "AddError fields_msg \<in> set (snd (run_clip_dem env))" by simp_all
next
  assume v: "\<forall>f\<in>set (table_fields env). case_variant f ''Longitude'' \<or> case_variant f ''Latitude''"
    and r: "no_failure_before env 28"
  from v have "\<not> has_fields env"
    using case_variants_lack_fields(1) [of "table_fields env"]
    by (simp add: x_field_def y_field_def has_fields_def)
  from Final_rejects_missing_fields [OF r this]
  show "fst (run_Final env) = Raised (Exn ValueError fields_msg)"
    and "AddError fields_msg \<in> set (snd (run_Final env))" by simp_all
qed

theorem field_check_is_case_sensitive_witness:
  "case_variant ''longitude'' ''Longitude'' \<and> case_variant ''LATITUDE'' ''Latitude''
   \<and> check_fields [''longitude'', ''LATITUDE''] []
       = (Raised (Exn ValueError fields_msg), [AddError fields_msg])
   \<and> no_failure_before (example_env\<lparr>table_fields := [''longitude'', ''LATITUDE'']\<rparr>) 30
   \<and> fst (run_clip_dem (example_env\<lparr>table_fields := [''longitude'', ''LATITUDE'']\<rparr>))
       = Raised (Exn ValueError fields_msg)
   \<and> fst (run_Final (example_env\<lparr>table_fields := [''longitude'', ''LATITUDE'']\<rparr>))
       = Raised (Exn ValueError fields_msg)"
  using field_check_is_case_sensitive [of "[''longitude'', ''LATITUDE'']" "[]"
              "example_env\<lparr>table_fields := [''longitude'', ''LATITUDE'']\<rparr>"]
  by (simp add: example_env_def no_failure_before_def case_variant_def lower_def lower_char_def)

lemma clip_dem_rejects_missing_dem:
  assumes "no_failure_before env 41" "has_fields env" "\<not> dem_Exists env"
  shows "fst (run_clip_dem env) = Raised (Exn ValueError (dem_missing_msg env))
    \<and> AddError (dem_missing_msg env) \<in> set (snd (run_clip_dem env))
    \<and> tools_called (snd (run_clip_dem env)) =
        [GetParameterAsText, GetParameterAsText, GetParameterAsText, GetParameterAsText,
         GetParameterAsText, SpatialReference, SpatialReference, SpatialReference,
         TableToTable_conversion, ListFields, XYTableToPoint, Exists]"
  using assms
  by (simp add: run_clip_dem_def clip_dem_def clip_dem_setup_def clip_dem_points_def
        clip_dem_validate_dem_def check_table_fields exec tools_called_def
        no_failure_beforeD [of env 41])

lemma clip_dem_rejects_non_raster:
  assumes "no_failure_before env 44" "has_fields env" "dem_Exists env"
    "dem_dataType env \<noteq> ''RasterDataset''"
  shows "fst (run_clip_dem env) = Raised (Exn ValueError (dem_not_raster_msg env))
    \<and> AddError (dem_not_raster_msg env) \<in> set (snd (run_clip_dem env))
    \<and> tools_called (snd (run_clip_dem env)) =
        [GetParameterAsText, GetParameterAsText, GetParameterAsText, GetParameterAsText,
         GetParameterAsText, SpatialReference, SpatialReference, SpatialReference,
         TableToTable_conversion, ListFields, XYTableToPoint, Exists, Describe]"
  using assms
  by (simp add: run_clip_dem_def clip_dem_def clip_dem_setup_def clip_dem_points_def
        clip_dem_validate_dem_def check_table_fields exec tools_called_def
        no_failure_beforeD [of env 44])

lemma Final_rejects_missing_dem:
  assumes "no_failure_before env 39" "has_fields env" "\<not> dem_Exists env"
  shows "fst (run_Final env) = Raised (Exn ValueError (dem_missing_msg env))
    \<and> AddError (dem_missing_msg env) \<in> set (snd (run_Final env))
    \<and> tools_called (snd (run_Final env)) =
        [GetParameterAsText, GetParameterAsText, GetParameterAsText, GetParameterAsText,
         GetParameterAsText, SpatialReference, SpatialReference,
         TableToTable_conversion, ListFields, XYTableToPoint, Exists]"
  using assms
  by (simp add: run_Final_def ArthurGEOG567_Final_def Final_body_def Final_setup_def
        Final_points_def Final_validate_dem_def check_table_fields exec tools_called_def
        no_failure_beforeD [of env 39])

lemma Final_rejects_non_raster:
  assumes "no_failure_before env 42" "has_fields env" "dem_Exists env"
    "dem_dataType env \<noteq> ''RasterDataset''"
  shows "fst (run_Final env) = Raised (Exn ValueError (dem_not_raster_msg env))
    \<and> AddError (dem_not_raster_msg env) \<in> set (snd (run_Final env))
    \<and> tools_called (snd (run_Final env)) =
        [GetParameterAsText, GetParameterAsText, GetParameterAsText, GetParameterAsText,
         GetParameterAsText, SpatialReference, SpatialReference,
         TableToTable_conversion, ListFields, XYTableToPoint, Exists, Describe]"
  using assms
  by (simp add: run_Final_def ArthurGEOG567_Final_def Final_body_def Final_setup_def
        Final_points_def Final_validate_dem_def check_table_fields exec tools_called_def
        no_failure_beforeD [of env 42])

text \<open>
  Claim C4. When the DEM path does not exist, or exists and is described with a data type
  other than \<open>RasterDataset\<close> (and no toolbox call up to that check raised), each script
  reports the error with \<^verbatim>\<open>AddError\<close> and raises a \<^verbatim>\<open>ValueError\<close> with the same text. The
  tools called by then end with \<^verbatim>\<open>Exists\<close> (and \<^verbatim>\<open>Describe\<close> in the second case): no
  projection, no clip and no derivation of a raster has been called.
\<close>

theorem invalid_dem_rejected_before_clipping:
  "(no_failure_before env 41 \<and> has_fields env \<and> \<not> dem_Exists env \<longrightarrow>
      fst (run_clip_dem env) = Raised (Exn ValueError (dem_missing_msg env))
      \<and> AddError (dem_missing_msg env) \<in> set (snd (run_clip_dem env))
      \<and> tools_called (snd (run_clip_dem env)) =
          [GetParameterAsText, GetParameterAsText, GetParameterAsText, GetParameterAsText,
           GetParameterAsText, SpatialReference, SpatialReference, SpatialReference,
           TableToTable_conversion, ListFields, XYTableToPoint, Exists])
   \<and> (no_failure_before env 44 \<and> has_fields env \<and> dem_Exists env
        \<and> dem_dataType env \<noteq> ''RasterDataset'' \<longrightarrow>
      fst (run_clip_dem env) = Raised (Exn ValueError (dem_not_raster_msg env))
      \<and> AddError (dem_not_raster_msg env) \<in> set (snd (run_clip_dem env))
      \<and> tools_called (snd (run_clip_dem env)) =
          [GetParameterAsText, GetParameterAsText, GetParameterAsText, GetParameterAsText,
           GetParameterAsText, SpatialReference, SpatialReference, SpatialReference,
           TableToTable_conversion, ListFields, XYTableToPoint, Exists, Describe])
   \<and> (no_failure_before env 39 \<and> has_fields env \<and> \<not> dem_Exists env \<longrightarrow>
      fst (run_Final env) = Raised (Exn ValueError (dem_missing_msg env))
      \<and> AddError (dem_missing_msg env) \<in> set (snd (run_Final env))
      \<and> tools_called (snd (run_Final env)) =
          [GetParameterAsText, GetParameterAsText, GetParameterAsText, GetParameterAsText,
           GetParameterAsText, SpatialReference, SpatialReference,
           TableToTable_conversion, ListFields, XYTableToPoint, Exists])
   \<and> (no_failure_before env 42 \<and> has_fields env \<and> dem_Exists env
        \<and> dem_dataType env \<noteq> ''RasterDataset'' \<longrightarrow>
      fst (run_Final env) = Raised (Exn ValueError (dem_not_raster_msg env))
      \<and> AddError (dem_not_raster_msg env) \<in> set (snd (run_Final env))
      \<and> tools_called (snd (run_Final env)) =
          [GetParameterAsText, GetParameterAsText, GetParameterAsText, GetParameterAsText,
           GetParameterAsText, SpatialReference, SpatialReference,
           TableToTable_conversion, ListFields, XYTableToPoint, Exists, Describe])"
  using clip_dem_rejects_missing_dem [of env] clip_dem_rejects_non_raster [of env]
    Final_rejects_missing_dem [of env] Final_rejects_non_raster [of env]
  by blast

theorem invalid_dem_rejected_before_clipping_witness:
  "no_failure_before (example_env\<lparr>dem_Exists := False\<rparr>) 41
   \<and> has_fields (example_env\<lparr>dem_Exists := False\<rparr>)
   \<and> fst (run_clip_dem (example_env\<lparr>dem_Exists := False\<rparr>))
       = Raised (Exn ValueError (dem_missing_msg example_env))
   \<and> Clip \<notin> set (tools_called (snd (run_clip_dem (example_env\<lparr>dem_Exists := False\<rparr>))))
   \<and> fst (run_Final (example_env\<lparr>dem_Exists := False\<rparr>))
       = Raised (Exn ValueError (dem_missing_msg example_env))
   \<and> Clip \<notin> set (tools_called (snd (run_Final (example_env\<lparr>dem_Exists := False\<rparr>))))
   \<and> dem_dataType (example_env\<lparr>dem_dataType := ''FeatureClass''\<rparr>) \<noteq> ''RasterDataset''
   \<and> fst (run_clip_dem (example_env\<lparr>dem_dataType := ''FeatureClass''\<rparr>))
       = Raised (Exn ValueError (dem_not_raster_msg example_env))
   \<and> Clip \<notin> set (tools_called (snd (run_clip_dem (example_env\<lparr>dem_dataType := ''FeatureClass''\<rparr>))))
   \<and> fst (run_Final (example_env\<lparr>dem_dataType := ''FeatureClass''\<rparr>))
       = Raised (Exn ValueError (dem_not_raster_msg example_env))
   \<and> Slope \<notin> set (tools_called (snd (run_Final (example_env\<lparr>dem_dataType := ''FeatureClass''\<rparr>))))"
  using invalid_dem_rejected_before_clipping [of "example_env\<lparr>dem_Exists := False\<rparr>"]
    invalid_dem_rejected_before_clipping [of "example_env\<lparr>dem_dataType := ''FeatureClass''\<rparr>"]
  by (simp add: example_env_def no_failure_before_def has_fields_def x_field_def y_field_def
        dem_missing_msg_def dem_not_raster_msg_def dem_path_def)

section \<open>Temporary datasets\<close>

text \<open>
  Claim C7. A run of either script that completes (no exception leaves the script) has
  called \<^verbatim>\<open>Delete_management\<close> on every temporary in-memory dataset of the script, and each
  of these calls returned: \<open>temp_table\<close> and \<open>temp_fc_wgs84\<close> in \<^verbatim>\<open>clip_dem.py\<close> (lines 84,
  85) and in \<^verbatim>\<open>ArthurGEOG567_Final.py\<close> (lines 210, 211), and \<open>projected_dem\<close> in
  \<^verbatim>\<open>ArthurGEOG567_Final.py\<close> (line 212).
\<close>

theorem temporaries_deleted_when_script_completes:
  "(fst (run_clip_dem env) = Completed \<longrightarrow>
      fails env (Delete_management, 84) = None
      \<and> Call (Delete_management, 84) [Str temp_table] \<in> set (snd (run_clip_dem env))
      \<and> fails env (Delete_management, 85) = None
      \<and> Call (Delete_management, 85) [Str temp_fc_wgs84] \<in> set (snd (run_clip_dem env)))
   \<and> (fst (run_Final env) = Completed \<longrightarrow>
      fails env (Delete_management, 210) = None
      \<and> Call (Delete_management, 210) [Str temp_table] \<in> set (snd (run_Final env))
      \<and> fails env (Delete_management, 211) = None
      \<and> Call (Delete_management, 211) [Str temp_fc_wgs84] \<in> set (snd (run_Final env))
      \<and> fails env (Delete_management, 212) = None
      \<and> Call (Delete_management, 212) [Str projected_dem] \<in> set (snd (run_Final env)))"
proof (intro conjI impI)
  assume c: "fst (run_clip_dem env) = Completed"
  have fin: "\<exists>a. fst (clip_dem_finish env a) = Completed
      \<and> set (snd (clip_dem_finish env a)) \<subseteq> set (snd (run_clip_dem env))"
    by (rule clip_dem_Completed_section [OF c]) simp
  have em: "list_all (emits (\<lambda>ev. True))
     [call env (Delete_management, 84) [Str temp_table],
      call env (Delete_management, 85) [Str temp_fc_wgs84],
      call env (SetParameterAsText, 88) [Num 2, Str (output_fc_path env)],
      call env (SetParameterAsText, 89) [Num 4, Str (clipped_dem env)],
      tell (AddMessage (''Point feature class '' @ quote @ output_fc env @ quote
              @ '' created in '' @ quote @ output_gdb env @ quote
              @ '' with spatial reference matching DEM raster''))]"
    by (simp add: emits_rules)
  note r = section_Completed_call [OF fin [unfolded clip_dem_finish_def] em]
  from r [of env "(Delete_management, 84)" "[Str temp_table]"]
  show "fails env (Delete_management, 84) = None"
    and "Call (Delete_management, 84) [Str temp_table] \<in> set (snd (run_clip_dem env))"
    by simp_all
  from r [of env "(Delete_management, 85)" "[Str temp_fc_wgs84]"]
  show "fails env (Delete_management, 85) = None"
    and "Call (Delete_management, 85) [Str temp_fc_wgs84] \<in> set (snd (run_clip_dem env))"
    by simp_all
next
  assume c: "fst (run_Final env) = Completed"
  have fin: "\<exists>a. fst (Final_finish env a) = Completed
      \<and> set (snd (Final_finish env a)) \<subseteq> set (snd (run_Final env))"
    by (rule Final_Completed_section [OF c]) simp
  have em: "list_all (emits (\<lambda>ev. True))
     [call env (Delete_management, 210) [Str temp_table],
      call env (Delete_management, 211) [Str temp_fc_wgs84],
      call env (Delete_management, 212) [Str projected_dem],
      tell (AddMessage ''Temporary datasets removed.''),
      call env (SetParameterAsText, 216) [Num 2, Str (output_fc_path env)],
      call env (SetParameterAsText, 217) [Num 4, Str (clipped_dem env)],
      tell (AddMessage (''Point feature class '' @ quote @ output_fc env @ quote
              @ '' created in '' @ quote @ output_gdb env @ quote
              @ '' with spatial reference Alberta 3TM 114 NAD 83''))]"
    by (simp add: emits_rules)
  note r = section_Completed_call [OF fin [unfolded Final_finish_def] em]
  from r [of env "(Delete_management, 210)" "[Str temp_table]"]
  show "fails env (Delete_management, 210) = None"
    and "Call (Delete_management, 210) [Str temp_table] \<in> set (snd (run_Final env))"
    by simp_all
  from r [of env "(Delete_management, 211)" "[Str temp_fc_wgs84]"]
  show "fails env (Delete_management, 211) = None"
    and "Call (Delete_management, 211) [Str temp_fc_wgs84] \<in> set (snd (run_Final env))"
    by simp_all
  from r [of env "(Delete_management, 212)" "[Str projected_dem]"]
  show "fails env (Delete_management, 212) = None"
    and "Call (Delete_management, 212) [Str projected_dem] \<in> set (snd (run_Final env))"
    by simp_all
qed

theorem temporaries_deleted_when_script_completes_witness:
  "fst (run_clip_dem example_env) = Completed
   \<and> Call (Delete_management, 84) [Str temp_table] \<in> set (snd (run_clip_dem example_env))
   \<and> Call (Delete_management, 85) [Str temp_fc_wgs84] \<in> set (snd (run_clip_dem example_env))
   \<and> fst (run_Final example_env) = Completed
   \<and> Call (Delete_management, 210) [Str temp_table] \<in> set (snd (run_Final example_env))
   \<and> Call (Delete_management, 211) [Str temp_fc_wgs84] \<in> set (snd (run_Final example_env))
   \<and> Call (Delete_management, 212) [Str projected_dem] \<in> set (snd (run_Final example_env))"
  using temporaries_deleted_when_script_completes [of example_env] example_clip_dem_completes example_Final_completes
  by simp

section \<open>The derived rasters\<close>

lemma Final_emits_Hillshade:
  "emits (\<lambda>ev. \<forall>l a. ev = Call (Hillshade, l) a \<longrightarrow>
        l = 104 \<and> a = [Str (clipped_dem env), Kw ''azimuth'' 315, Kw ''altitude'' 45])
     (ArthurGEOG567_Final env)"
  by (simp add: ArthurGEOG567_Final_def Final_body_def Final_sections emits_rules Let_def
        split: prod.splits option.splits)

lemma Final_derive_emits:
  "list_all (emits (\<lambda>ev. True))
     [tell (AddMessage ''Calculating slope percent...''),
      call env (Slope, 89) [Str (clipped_dem env), Str ''PERCENT_RISE''],
      call env (save, 89) [Str (slope_raster env)],
      tell (AddMessage (''Slope percent raster saved to '' @ slope_raster env)),
      tell (AddMessage ''Calculating aspect...''),
      call env (Aspect, 94) [Str (clipped_dem env)],
      call env (save, 94) [Str (aspect_raster env)],
      tell (AddMessage (''Aspect raster saved to '' @ aspect_raster env)),
      tell (AddMessage ''Calculating slope curvature...''),
      call env (Curvature, 99) [Str (clipped_dem env)],
      call env (save, 99) [Str (curvature_raster env)],
      tell (AddMessage (''Slope curvature raster saved to '' @ curvature_raster env)),
      tell (AddMessage ''Generating hillshade...''),
      call env (Hillshade, 104) [Str (clipped_dem env), Kw ''azimuth'' 315, Kw ''altitude'' 45],
      call env (save, 104) [Str (hillshade_raster env)],
      tell (AddMessage (''Hillshade raster saved to '' @ hillshade_raster env))]"
  by (simp add: emits_rules)

lemma Final_Completed_derive_call:
  assumes "fst (run_Final env) = Completed"
    and "call env s args \<in> set
     [tell (AddMessage ''Calculating slope percent...''),
      call env (Slope, 89) [Str (clipped_dem env), Str ''PERCENT_RISE''],
      call env (save, 89) [Str (slope_raster env)],
      tell (AddMessage (''Slope percent raster saved to '' @ slope_raster env)),
      tell (AddMessage ''Calculating aspect...''),
      call env (Aspect, 94) [Str (clipped_dem env)],
      call env (save, 94) [Str (aspect_raster env)],
      tell (AddMessage (''Aspect raster saved to '' @ aspect_raster env)),
      tell (AddMessage ''Calculating slope curvature...''),
      call env (Curvature, 99) [Str (clipped_dem env)],
      call env (save, 99) [Str (curvature_raster env)],
      tell (AddMessage (''Slope curvature raster saved to '' @ curvature_raster env)),
      tell (AddMessage ''Generating hillshade...''),
      call env (Hillshade, 104) [Str (clipped_dem env), Kw ''azimuth'' 315, Kw ''altitude'' 45],
      call env (save, 104) [Str (hillshade_raster env)],
      tell (AddMessage (''Hillshade raster saved to '' @ hillshade_raster env))]"
  shows "fails env s = None \<and> Call s args \<in> set (snd (run_Final env))"
proof -
  have "\<exists>a. fst (Final_derive env a) = Completed
      \<and> set (snd (Final_derive env a)) \<subseteq> set (snd (run_Final env))"
    by (rule Final_Completed_section [OF assms(1)]) simp
  from section_Completed_call [OF this [unfolded Final_derive_def] Final_derive_emits assms(2)]
  show ?thesis .
qed

text \<open>
  Claim C8. In every run of \<^verbatim>\<open>ArthurGEOG567_Final.py\<close>, whatever the environment, a call of
  \<^verbatim>\<open>Hillshade\<close> is the call of line 104 on the clipped DEM with azimuth 315 and altitude 45;
  a run that completes has made that call and saved its result as the hillshade raster.
  The two numbers are constants of the script: no parameter of the script reaches them.
\<close>

theorem hillshade_parameters_fixed:
  "(\<forall>ev\<in>set (snd (run_Final env)). \<forall>l a. ev = Call (Hillshade, l) a \<longrightarrow>
       l = 104 \<and> a = [Str (clipped_dem env), Kw ''azimuth'' 315, Kw ''altitude'' 45])
   \<and> (fst (run_Final env) = Completed \<longrightarrow>
       Call (Hillshade, 104) [Str (clipped_dem env), Kw ''azimuth'' 315, Kw ''altitude'' 45]
         \<in> set (snd (run_Final env))
       \<and> Call (save, 104) [Str (hillshade_raster env)] \<in> set (snd (run_Final env)))"
proof (intro conjI ballI impI)
  fix ev assume "ev \<in> set (snd (run_Final env))"
  then show "\<forall>l a. ev = Call (Hillshade, l) a \<longrightarrow>
       l = 104 \<and> a = [Str (clipped_dem env), Kw ''azimuth'' 315, Kw ''altitude'' 45]"
    unfolding run_Final_def by (rule emits_new [OF Final_emits_Hillshade])
next
  assume c: "fst (run_Final env) = Completed"
  from Final_Completed_derive_call [OF c, of "(Hillshade, 104)"
      "[Str (clipped_dem env), Kw ''azimuth'' 315, Kw ''altitude'' 45]"]
  show "Call (Hillshade, 104) [Str (clipped_dem env), Kw ''azimuth'' 315, Kw ''altitude'' 45]
         \<in> set (snd (run_Final env))" by simp
  from Final_Completed_derive_call [OF c, of "(save, 104)" "[Str (hillshade_raster env)]"]
  show "Call (save, 104) [Str (hillshade_raster env)] \<in> set (snd (run_Final env))" by simp
qed

theorem hillshade_parameters_fixed_witness:
  "fst (run_Final example_env) = Completed
   \<and> Call (Hillshade, 104) [Str ''clipped.tif'', Kw ''azimuth'' 315, Kw ''altitude'' 45]
        \<in> set (snd (run_Final example_env))
   \<and> Call (save, 104) [Str ''out.gdb/points_hillshade''] \<in> set (snd (run_Final example_env))"
  using hillshade_parameters_fixed [of example_env] example_Final_completes
  by (simp add: clipped_dem_def hillshade_raster_def output_gdb_def output_fc_def
        example_env_def)







section \<open>ArthurGEOG567\_Final.py: the message after the point layer is added\<close>

declare str_nat.simps [simp del]

lemma str_nat_head: "\<exists>d ds. str_nat n = d # ds \<and> d \<noteq> CHR ''P''"
proof (induction n rule: str_nat.induct)
  case (1 n)
  show ?case
  proof (cases "n < 10")
    case True
    then have "char_of (48 + n) \<noteq> CHR ''P''"
      by (simp add: char_of_eq_iff take_bit_eq_mod)
    with True show ?thesis by (subst str_nat.simps) simp
  next
    case False
    with 1 obtain d ds where "str_nat (n div 10) = d # ds" "d \<noteq> CHR ''P''" by blast
    with False show ?thesis by (subst str_nat.simps) simp
  qed
qed

lemma str_nat_not_P [simp]: "str_nat n @ s \<noteq> CHR ''P'' # t"
  using str_nat_head [of n] by auto

lemma if_tell: "(if c then tell a else tell b) evs = (Completed, evs @ [if c then a else b])"
  by (simp add: tell_def)

lemma seq_single: "seq [m] evs = m evs"
  by (cases "m evs") (auto simp: seq.simps split: outcome.splits)

lemma Final_tail_emits:
  "emits (\<lambda>ev. ev \<noteq> AddMessage point_added_msg \<and> ev \<noteq> AddError point_failed_msg)
     (try_except
        (seq [Final_order_layers env, Final_point_layer env, Final_some_tool env,
              Final_finish env])
        (except_Exception (\<lambda>e.
           seq [tell (AddError (''Script failed with error: '' @ str e)), raise e])))"
  by (simp add: Final_sections emits_rules point_added_msg_def point_failed_msg_def
        split: prod.splits option.splits)

lemma Final_setup_completes:
  assumes "no_failure_before env 154"
  shows "fst (Final_setup env []) = Completed"
  using assms by (simp add: Final_setup_def exec no_failure_beforeD [of env 154])

lemma Final_to_line_157_completes:
  assumes "no_failure_before env 154" "has_fields env" "dem_is_raster env"
  shows "fst (seq [Final_points env, Final_validate_dem env, Final_clip env, Final_derive env,
                   Final_extract env, Final_add_layers env] evs) = Completed"
  using assms
  by (simp add: Final_points_def Final_validate_dem_def Final_clip_def Final_derive_def
        Final_extract_def Final_add_layers_def check_table_fields dem_is_raster_def
        seq.simps call_def tell_def raise_def if_tell Let_def no_failure_beforeD [of env 154])

lemma Final_line_157_messages:
  assumes "no_failure_before env 154" "has_fields env" "dem_is_raster env"
  shows "(AddMessage point_added_msg \<in> set (snd (seq [Final_points env, Final_validate_dem env,
            Final_clip env, Final_derive env, Final_extract env, Final_add_layers env]
            (snd (Final_setup env []))))
          \<longleftrightarrow> added_layer env 147 \<noteq> None)
       \<and> (AddError point_failed_msg \<in> set (snd (seq [Final_points env, Final_validate_dem env,
            Final_clip env, Final_derive env, Final_extract env, Final_add_layers env]
            (snd (Final_setup env []))))
          \<longleftrightarrow> added_layer env 147 = None)"
  using assms
  by (simp add: Final_setup_def Final_points_def Final_validate_dem_def Final_clip_def
        Final_derive_def
        Final_extract_def Final_add_layers_def check_table_fields dem_is_raster_def
        seq.simps call_def tell_def raise_def if_tell Let_def no_failure_beforeD [of env 154]
        point_added_msg_def point_failed_msg_def)

lemma Final_run_from_line_157:
  assumes "no_failure_before env 154" "has_fields env" "dem_is_raster env"
  shows "run_Final env =
     try_except
        (seq [Final_order_layers env, Final_point_layer env, Final_some_tool env,
              Final_finish env])
        (except_Exception (\<lambda>e.
           seq [tell (AddError (''Script failed with error: '' @ str e)), raise e]))
        (snd (seq [Final_points env, Final_validate_dem env,
            Final_clip env, Final_derive env, Final_extract env, Final_add_layers env]
            (snd (Final_setup env []))))"
proof -
  have body: "Final_body env (snd (Final_setup env [])) =
      seq [Final_order_layers env, Final_point_layer env, Final_some_tool env, Final_finish env]
        (snd (seq [Final_points env, Final_validate_dem env,
            Final_clip env, Final_derive env, Final_extract env, Final_add_layers env]
            (snd (Final_setup env []))))"
    using seq_prefix_Completed [OF Final_to_line_157_completes [OF assms],
       of "[Final_order_layers env, Final_point_layer env, Final_some_tool env,
            Final_finish env]" "snd (Final_setup env [])"]
    by (simp add: Final_body_def)
  show ?thesis
    unfolding run_Final_def ArthurGEOG567_Final_def
    by (simp add: seq_Cons_Completed [of "Final_setup env" "[]", OF Final_setup_completes [OF assms(1)]] seq_single
          try_except_def body)
qed

text \<open>
  Claim C10. When \<^verbatim>\<open>ArthurGEOG567_Final.py\<close> gets past line 153 (no toolbox call up to that
  line raises, the inputs are valid), the log of the run has "Point Feature Class added to
  the map." exactly when the elevation layer of line 147 was added, and "Failed to add
  Point Feature Class to the map." exactly when it was not. What \<^verbatim>\<open>addDataFromPath\<close>
  returned for the point feature class at line 153 plays no part: with the elevation
  layer added and the point layer not, the script still reports the point feature class
  as added.
\<close>

theorem point_layer_message_follows_elevation_layer:
  "no_failure_before env 154 \<and> has_fields env \<and> dem_is_raster env \<longrightarrow>
     (AddMessage ''Point Feature Class added to the map.'' \<in> set (snd (run_Final env))
        \<longleftrightarrow> added_layer env 147 \<noteq> None)
     \<and> (AddError ''Failed to add Point Feature Class to the map.'' \<in> set (snd (run_Final env))
        \<longleftrightarrow> added_layer env 147 = None)"
proof
  assume a: "no_failure_before env 154 \<and> has_fields env \<and> dem_is_raster env"
  then have r: "no_failure_before env 154" and f: "has_fields env" and d: "dem_is_raster env"
    by simp_all
  note run = Final_run_from_line_157 [OF r f d]
  note msgs = Final_line_157_messages [OF r f d]
  show "(AddMessage ''Point Feature Class added to the map.'' \<in> set (snd (run_Final env))
        \<longleftrightarrow> added_layer env 147 \<noteq> None)
     \<and> (AddError ''Failed to add Point Feature Class to the map.'' \<in> set (snd (run_Final env))
        \<longleftrightarrow> added_layer env 147 = None)"
    using msgs
      emits_mem_iff [OF Final_tail_emits, of "AddMessage point_added_msg" env]
      emits_mem_iff [OF Final_tail_emits, of "AddError point_failed_msg" env]
    unfolding run point_added_msg_def point_failed_msg_def
    by simp
qed

theorem point_layer_message_follows_elevation_layer_witness:
  "no_failure_before (example_env\<lparr>added_layer := (\<lambda>l. if l = 153 then None else Some (Layer ''layer''))\<rparr>) 154
   \<and> added_layer (example_env\<lparr>added_layer := (\<lambda>l. if l = 153 then None else Some (Layer ''layer''))\<rparr>) 153 = None
   \<and> added_layer (example_env\<lparr>added_layer := (\<lambda>l. if l = 153 then None else Some (Layer ''layer''))\<rparr>) 147 = Some (Layer ''layer'')
   \<and> AddMessage ''Point Feature Class added to the map.''
       \<in> set (snd (run_Final (example_env\<lparr>added_layer := (\<lambda>l. if l = 153 then None else Some (Layer ''layer''))\<rparr>)))
   \<and> AddError ''Failed to add Point Feature Class to the map.''
       \<notin> set (snd (run_Final (example_env\<lparr>added_layer := (\<lambda>l. if l = 153 then None else Some (Layer ''layer''))\<rparr>)))"
  using point_layer_message_follows_elevation_layer [of "example_env\<lparr>added_layer := (\<lambda>l. if l = 153 then None else Some (Layer ''layer''))\<rparr>"]
  by (simp add: example_env_def no_failure_before_def has_fields_def dem_is_raster_def
        x_field_def y_field_def)

section \<open>Failures of toolbox calls\<close>

lemma propagatesD:
  "propagates env X m \<Longrightarrow> list_all (accounted env X Completed) evs
     \<Longrightarrow> list_all (accounted env X (fst (m evs))) (snd (m evs))"
  by (simp add: propagates_def)

lemma accounted_Completed: "accounted env X Completed ev \<Longrightarrow> accounted env X r ev"
  by (cases ev) auto

lemma list_accounted_Completed:
  "list_all (accounted env X Completed) evs \<Longrightarrow> list_all (accounted env X r) evs"
  by (simp add: list_all_iff accounted_Completed)

lemma propagates_call: "propagates env X (call env s args)"
  by (simp add: propagates_def call_def list_accounted_Completed split: option.splits)

lemma propagates_tell: "\<not> is_Call ev \<Longrightarrow> propagates env X (tell ev)"
  by (cases ev) (simp_all add: propagates_def tell_def)

lemma propagates_raise: "propagates env X (raise e)"
  by (simp add: propagates_def raise_def list_accounted_Completed)

lemma propagates_seq: "list_all (propagates env X) ms \<Longrightarrow> propagates env X (seq ms)"
proof (induction ms)
  case Nil
  show ?case by (simp add: propagates_def seq.simps)
next
  case (Cons m ms)
  then have m: "propagates env X m" and ms: "propagates env X (seq ms)" by simp_all
  show ?case unfolding propagates_def
  proof (intro allI impI)
    fix evs assume c: "list_all (accounted env X Completed) evs"
    note step = propagatesD [OF m c]
    show "list_all (accounted env X (fst (seq (m # ms) evs))) (snd (seq (m # ms) evs))"
    proof (cases "fst (m evs)")
      case Completed
      with step propagatesD [OF ms, of "snd (m evs)"] show ?thesis
        by (simp add: seq_Cons_Completed)
    next
      case (Raised e)
      with step show ?thesis by (simp add: seq_Cons_Raised)
    qed
  qed
qed

lemma propagates_for_each:
  "\<forall>x\<in>set xs. propagates env X (body x) \<Longrightarrow> propagates env X (for_each xs body)"
  unfolding for_each_def by (rule propagates_seq) (simp add: list_all_iff)

text \<open>A handler that logs and raises again passes the exception on.\<close>

lemma propagates_try_reraise:
  assumes b: "propagates env X body" and f: "\<forall>e. \<not> is_Call (f e)"
  shows "propagates env X
    (try_except body (except_Exception (\<lambda>e. seq [tell (f e), raise e])))"
  unfolding propagates_def
proof (intro allI impI)
  fix evs assume c: "list_all (accounted env X Completed) evs"
  let ?h = "except_Exception (\<lambda>e. seq [tell (f e), raise e])"
  note step = propagatesD [OF b c]
  show "list_all (accounted env X (fst (try_except body ?h evs))) (snd (try_except body ?h evs))"
  proof (cases "body evs")
    case (Pair r evs')
    show ?thesis
    proof (cases r)
      case Completed
      with Pair step show ?thesis by (simp add: try_except_def)
    next
      case (Raised e)
      from f have "\<not> is_Call (f e)" by simp
      then have "accounted env X (Raised e) (f e)" by (cases "f e") simp_all
      with Pair Raised step show ?thesis
        by (simp add: try_except_def except_Exception_def exec)
    qed
  qed
qed

text \<open>
  A \<^verbatim>\<open>try\<close> whose body only calls exempt sites: whatever it raises, nothing in the log
  has to be accounted for, and the handler decides.
\<close>

lemma propagates_try_exempt:
  assumes b: "emits (exempt X) body"
    and h: "\<forall>e. propagates env X (handler e)"
  shows "propagates env X (try_except body handler)"
  unfolding propagates_def
proof (intro allI impI)
  fix evs assume c: "list_all (accounted env X Completed) evs"
  obtain new where new: "snd (body evs) = evs @ new"
      "list_all (exempt X) new"
    using b unfolding emits_def by blast
  have "accounted env X Completed ev" if "ev \<in> set new" for ev
  proof -
    from that new(2) have "exempt X ev" by (simp add: list_all_iff)
    then show ?thesis by (cases ev) simp_all
  qed
  with c new(1) have c': "list_all (accounted env X Completed) (snd (body evs))"
    by (auto simp: list_all_iff)
  show "list_all (accounted env X (fst (try_except body handler evs)))
          (snd (try_except body handler evs))"
  proof (cases "body evs")
    case (Pair r evs')
    show ?thesis
    proof (cases r)
      case Completed
      with Pair c' show ?thesis by (simp add: try_except_def)
    next
      case (Raised e)
      from h have "propagates env X (handler e)" by simp
      from propagatesD [OF this, of evs'] Pair Raised c' show ?thesis
        by (simp add: try_except_def)
    qed
  qed
qed

lemma propagates_run:
  assumes "propagates env X m" and "Call s args \<in> set (snd (m []))" and "s \<notin> X"
    and "fails env s = Some e"
  shows "fst (m []) = Raised e"
proof -
  from propagatesD [OF assms(1), of "[]"]
  have "list_all (accounted env X (fst (m []))) (snd (m []))" by simp
  then have "\<forall>ev\<in>set (snd (m [])). accounted env X (fst (m [])) ev"
    by (simp add: list_all_iff)
  from bspec [OF this assms(2)] assms(3,4) show ?thesis by simp
qed

lemmas propagates_rules =
  propagates_call propagates_tell propagates_raise propagates_seq propagates_for_each
  propagates_try_reraise

lemma clip_dem_propagates: "propagates env {} (clip_dem env)"
  by (simp add: clip_dem_def clip_dem_sections propagates_rules Let_def split: prod.splits)

lemma Final_some_tool_propagates:
  "propagates env {(SomeTool_management, 201)} (Final_some_tool env)"
  unfolding Final_some_tool_def
  by (rule propagates_try_exempt) (simp_all add: emits_rules propagates_rules)

lemma Final_propagates:
  "propagates env {(SomeTool_management, 201)} (ArthurGEOG567_Final env)"
  by (simp add: ArthurGEOG567_Final_def Final_body_def Final_some_tool_propagates
        Final_setup_def Final_points_def Final_validate_dem_def Final_clip_def Final_derive_def
        Final_extract_def Final_add_layers_def Final_order_layers_def Final_point_layer_def
        Final_finish_def check_fields_def
        propagates_rules Let_def split: prod.splits option.splits)

text \<open>What the handlers of lines 202-207 do with an exception of the call of line 201.\<close>

lemma Final_some_tool_swallows:
  assumes "fails env (SomeTool_management, 201) = Some e" "is_Exception e" "\<not> is_ExecuteError e"
  shows "Final_some_tool env evs =
     (Completed, evs @ [Call (SomeTool_management, 201) [Name ''input'', Name ''output''],
                        Print (''Unexpected error: '' @ str e)])"
  using assms by (simp add: Final_some_tool_def exec)

lemma clip_dem_clip_logs:
  assumes "fails env (Clip, 77) = Some e" "is_Exception e"
  shows "clip_dem_clip env evs =
     (Raised e,
      evs @ [Call (Clip, 77)
               [Str (dem_path env), Str (rectangle_text env (clip_dem_rectangle env)),
                Str (clipped_dem env), Str '''', Str '''', Str ''ClippingGeometry'',
                Str ''MAINTAIN_EXTENT''],
             AddError (''Failed to clip DEM: '' @ str e)])"
  using assms by (simp add: clip_dem_clip_def exec)

lemma Final_handler_logs:
  assumes "fst (Final_setup env []) = Completed" "fst (run_Final env) = Raised e"
    "is_Exception e"
  shows "last (snd (run_Final env)) = AddError (''Script failed with error: '' @ str e)"
proof -
  let ?h = "except_Exception (\<lambda>e.
           seq [tell (AddError (''Script failed with error: '' @ str e)), raise e])"
  have run: "run_Final env = try_except (Final_body env) ?h (snd (Final_setup env []))"
    unfolding run_Final_def ArthurGEOG567_Final_def
    by (simp add: seq_Cons_Completed [of "Final_setup env" "[]", OF assms(1)] seq_single)
  show ?thesis
  proof (cases "Final_body env (snd (Final_setup env []))")
    case (Pair r evs')
    show ?thesis
    proof (cases r)
      case Completed
      with Pair run assms(2) show ?thesis by (simp add: try_except_def)
    next
      case (Raised e')
      with Pair run assms(2,3) show ?thesis
        by (auto simp: try_except_def except_Exception_def exec split: if_splits)
    qed
  qed
qed

subsection \<open>The statement of lines 199-207\<close>

text \<open>
  A statement \<^emph>\<open>completes\<close> when it raises nothing from any log. The sections of
  \<^verbatim>\<open>ArthurGEOG567_Final.py\<close> before line 199 complete when none of their toolbox calls
  raises and the inputs are valid, so the run is then the statement of lines 199-207
  followed by the cleanup, inside the outer \<^verbatim>\<open>try\<close>.
\<close>

lemma completesD: "completes m \<Longrightarrow> fst (m evs) = Completed"
  by (simp add: completes_def)

lemma completes_call: "fails env s = None \<Longrightarrow> completes (call env s args)"
  by (simp add: completes_def call_def)

lemma completes_tell: "completes (tell ev)"
  by (simp add: completes_def tell_def)

lemma completes_seq: "list_all completes ms \<Longrightarrow> completes (seq ms)"
proof (induction ms)
  case Nil
  show ?case by (simp add: completes_def seq.simps)
next
  case (Cons m ms)
  then have m: "completes m" and ms: "completes (seq ms)" by simp_all
  show ?case unfolding completes_def
  proof
    fix evs
    from completesD [OF m, of evs] have "seq (m # ms) evs = seq ms (snd (m evs))"
      by (rule seq_Cons_Completed)
    with completesD [OF ms] show "fst (seq (m # ms) evs) = Completed" by simp
  qed
qed

lemma completes_for_each: "\<forall>x\<in>set xs. completes (body x) \<Longrightarrow> completes (for_each xs body)"
  unfolding for_each_def by (rule completes_seq) (simp add: list_all_iff)

lemma completes_try_except: "completes body \<Longrightarrow> completes (try_except body handler)"
  unfolding completes_def
proof
  fix evs
  assume "\<forall>evs. fst (body evs) = Completed"
  then have "fst (body evs) = Completed" by simp
  then show "fst (try_except body handler evs) = Completed"
    by (cases "body evs") (simp add: try_except_def)
qed

lemma completes_check_fields: "has_fields env \<Longrightarrow> completes (check_fields (table_fields env))"
  by (simp add: completes_def check_fields_def exec has_fields_def)

lemmas completes_rules =
  completes_call completes_tell completes_seq completes_for_each completes_try_except
  completes_check_fields

lemma Final_setup_completes_199:
  assumes "no_failure_before env 199"
  shows "fst (Final_setup env []) = Completed"
  using assms by (simp add: Final_setup_def exec no_failure_beforeD [of env 199])

lemma Final_to_line_197_completes:
  assumes "no_failure_before env 199" "has_fields env" "dem_is_raster env"
  shows "completes (seq [Final_points env, Final_validate_dem env, Final_clip env,
           Final_derive env, Final_extract env, Final_add_layers env, Final_order_layers env,
           Final_point_layer env])"
  using assms
  by (simp add: Final_points_def Final_validate_dem_def Final_clip_def Final_derive_def
        Final_extract_def Final_add_layers_def Final_order_layers_def Final_point_layer_def
        completes_rules dem_is_raster_def Let_def no_failure_beforeD [of env 199]
        split: prod.splits option.splits)

lemma is_ExecuteError_is_Exception: "is_ExecuteError e \<Longrightarrow> is_Exception e"
  by (cases e) auto

lemma Final_some_tool_messages:
  assumes "fails env (SomeTool_management, 201) = Some e" "is_ExecuteError e"
    "fails env (GetMessages, 204) = None"
  shows "Final_some_tool env evs =
     (Completed, evs @ [Call (SomeTool_management, 201) [Name ''input'', Name ''output''],
                        Call (GetMessages, 204) [Num 2],
                        Print (''Error with tool execution: '' @ tool_messages env)])"
  using assms by (simp add: Final_some_tool_def exec)

lemma Final_some_tool_messages_fail:
  assumes "fails env (SomeTool_management, 201) = Some e" "is_ExecuteError e"
    "fails env (GetMessages, 204) = Some e'"
  shows "Final_some_tool env evs =
     (Raised e', evs @ [Call (SomeTool_management, 201) [Name ''input'', Name ''output''],
                        Call (GetMessages, 204) [Num 2]])"
  using assms by (simp add: Final_some_tool_def exec)

lemma Final_some_tool_passes:
  assumes "fails env (SomeTool_management, 201) = Some e" "\<not> is_Exception e"
  shows "Final_some_tool env evs =
     (Raised e, evs @ [Call (SomeTool_management, 201) [Name ''input'', Name ''output'']])"
  using assms is_ExecuteError_is_Exception [of e]
  by (auto simp: Final_some_tool_def exec)

lemma Final_run_from_line_199:
  assumes "no_failure_before env 199" "has_fields env" "dem_is_raster env"
  shows "run_Final env =
     try_except
        (seq [Final_some_tool env, Final_finish env])
        (except_Exception (\<lambda>e.
           seq [tell (AddError (''Script failed with error: '' @ str e)), raise e]))
        (snd (seq [Final_points env, Final_validate_dem env, Final_clip env,
           Final_derive env, Final_extract env, Final_add_layers env, Final_order_layers env,
           Final_point_layer env] (snd (Final_setup env []))))"
proof -
  have body: "Final_body env (snd (Final_setup env [])) =
      seq [Final_some_tool env, Final_finish env]
        (snd (seq [Final_points env, Final_validate_dem env, Final_clip env,
           Final_derive env, Final_extract env, Final_add_layers env, Final_order_layers env,
           Final_point_layer env] (snd (Final_setup env []))))"
    using seq_prefix_Completed [OF completesD [OF Final_to_line_197_completes [OF assms]],
       of "[Final_some_tool env, Final_finish env]" "snd (Final_setup env [])"]
    by (simp add: Final_body_def)
  show ?thesis
    unfolding run_Final_def ArthurGEOG567_Final_def
    by (simp add: seq_Cons_Completed [of "Final_setup env" "[]",
            OF Final_setup_completes_199 [OF assms(1)]] seq_single try_except_def body)
qed

lemma try_except_keeps:
  assumes "\<forall>e. emits (\<lambda>ev. True) (handler e)" and "ev \<in> set (snd (body evs))"
  shows "ev \<in> set (snd (try_except body handler evs))"
proof (cases "body evs")
  case (Pair r evs')
  show ?thesis
  proof (cases r)
    case Completed
    with Pair assms(2) show ?thesis by (simp add: try_except_def)
  next
    case (Raised e)
    from assms(1) have "emits (\<lambda>ev. True) (handler e)" by simp
    from emits_extends [OF this, of ev evs'] Pair Raised assms(2) show ?thesis
      by (simp add: try_except_def)
  qed
qed

lemma Final_finish_first_call:
  "Call (Delete_management, 210) [Str temp_table] \<in> set (snd (Final_finish env evs))"
proof -
  have "emits (\<lambda>ev. True) (seq
     [call env (Delete_management, 211) [Str temp_fc_wgs84],
      call env (Delete_management, 212) [Str projected_dem],
      tell (AddMessage ''Temporary datasets removed.''),
      call env (SetParameterAsText, 216) [Num 2, Str (output_fc_path env)],
      call env (SetParameterAsText, 217) [Num 4, Str (clipped_dem env)],
      tell (AddMessage (''Point feature class '' @ quote @ output_fc env @ quote
              @ '' created in '' @ quote @ output_gdb env @ quote
              @ '' with spatial reference Alberta 3TM 114 NAD 83''))])"
    by (simp add: emits_rules)
  from emits_extends [OF this, of "Call (Delete_management, 210) [Str temp_table]"
      "evs @ [Call (Delete_management, 210) [Str temp_table]]"]
  show ?thesis
    by (cases "fails env (Delete_management, 210)")
       (simp_all add: Final_finish_def seq.simps(2) [of "call env (Delete_management, 210) [Str temp_table]"] call_def)
qed

lemma Final_continues_after_some_tool:
  assumes "no_failure_before env 199" "has_fields env" "dem_is_raster env"
    and "fails env (SomeTool_management, 201) = Some e" "is_Exception e"
    and "is_ExecuteError e \<longrightarrow> fails env (GetMessages, 204) = None"
  shows "Call (Delete_management, 210) [Str temp_table] \<in> set (snd (run_Final env))"
proof -
  let ?T = "snd (seq [Final_points env, Final_validate_dem env, Final_clip env,
           Final_derive env, Final_extract env, Final_add_layers env, Final_order_layers env,
           Final_point_layer env] (snd (Final_setup env [])))"
  have "fst (Final_some_tool env ?T) = Completed"
  proof (cases "is_ExecuteError e")
    case True
    with assms(4,6) show ?thesis by (simp add: Final_some_tool_messages)
  next
    case False
    with assms(4,5) show ?thesis by (simp add: Final_some_tool_swallows)
  qed
  then have "seq [Final_some_tool env, Final_finish env] ?T
      = Final_finish env (snd (Final_some_tool env ?T))"
    by (simp add: seq_Cons_Completed seq_single)
  then have "Call (Delete_management, 210) [Str temp_table]
      \<in> set (snd (seq [Final_some_tool env, Final_finish env] ?T))"
    by (simp add: Final_finish_first_call)
  then show ?thesis
    unfolding Final_run_from_line_199 [OF assms(1-3)]
    by (rule try_except_keeps [rotated]) (simp add: emits_rules)
qed

lemma Final_ends_on_non_Exception:
  assumes "no_failure_before env 199" "has_fields env" "dem_is_raster env"
    and "fails env (SomeTool_management, 201) = Some e" "\<not> is_Exception e"
  shows "fst (run_Final env) = Raised e"
  unfolding Final_run_from_line_199 [OF assms(1-3)]
  using assms(4,5)
  by (simp add: try_except_def except_Exception_def raise_def
        seq_Cons_Raised [of "Final_some_tool env" _ e] Final_some_tool_passes)

text \<open>
  Claim C6, as amended. In \<^verbatim>\<open>clip_dem.py\<close>, an exception raised by any toolbox call leaves
  the script as the outcome of the run; the one handler, around \<^verbatim>\<open>Clip\<close>, logs
  "Failed to clip DEM: ..." with \<^verbatim>\<open>AddError\<close> and raises the exception again. In
  \<^verbatim>\<open>ArthurGEOG567_Final.py\<close> the same holds of every toolbox call other than the call of
  \<^verbatim>\<open>SomeTool_management\<close> at line 201, and an exception of class \<^verbatim>\<open>Exception\<close> raised
  inside the outer \<^verbatim>\<open>try\<close> is logged as "Script failed with error: ..." before it is raised
  again. For an exception \<open>e\<close> raised by the call of line 201 there are four cases.

    \<^item> \<open>e\<close> is an \<^verbatim>\<open>Exception\<close> and not an \<^verbatim>\<open>ExecuteError\<close>: the handler of lines 205-207
      prints it and the statement completes.
    \<^item> \<open>e\<close> is an \<^verbatim>\<open>ExecuteError\<close> and \<^verbatim>\<open>GetMessages(2)\<close> at line 204 returns: the handler of
      lines 202-204 prints the tool messages and the statement completes.
    \<^item> \<open>e\<close> is an \<^verbatim>\<open>ExecuteError\<close> and \<^verbatim>\<open>GetMessages(2)\<close> at line 204 raises \<open>e'\<close>: the
      statement raises \<open>e'\<close>, which ends the run as a failure of any other toolbox call
      does.
    \<^item> \<open>e\<close> is not an \<^verbatim>\<open>Exception\<close>: no handler catches it and the statement raises \<open>e\<close>.

  In a run that reaches line 199 (no toolbox call before that line raises, the inputs are
  valid), in the first two cases the script goes on with the cleanup of line 210, and in
  the last case the run ends with \<open>e\<close>.
\<close>

theorem toolbox_failures_propagate:
  "(\<forall>s args e. Call s args \<in> set (snd (run_clip_dem env)) \<and> fails env s = Some e
       \<longrightarrow> fst (run_clip_dem env) = Raised e)
   \<and> (\<forall>s args e. Call s args \<in> set (snd (run_Final env)) \<and> fails env s = Some e
         \<and> s \<noteq> (SomeTool_management, 201)
       \<longrightarrow> fst (run_Final env) = Raised e)
   \<and> (\<forall>e evs. fails env (Clip, 77) = Some e \<and> is_Exception e
       \<longrightarrow> clip_dem_clip env evs =
           (Raised e,
            evs @ [Call (Clip, 77)
                     [Str (dem_path env), Str (rectangle_text env (clip_dem_rectangle env)),
                      Str (clipped_dem env), Str '''', Str '''', Str ''ClippingGeometry'',
                      Str ''MAINTAIN_EXTENT''],
                   AddError (''Failed to clip DEM: '' @ str e)]))
   \<and> (\<forall>e. fst (Final_setup env []) = Completed \<and> fst (run_Final env) = Raised e
         \<and> is_Exception e
       \<longrightarrow> last (snd (run_Final env)) = AddError (''Script failed with error: '' @ str e))
   \<and> (\<forall>e evs. fails env (SomeTool_management, 201) = Some e \<and> is_Exception e
         \<and> \<not> is_ExecuteError e
       \<longrightarrow> Final_some_tool env evs =
           (Completed, evs @ [Call (SomeTool_management, 201) [Name ''input'', Name ''output''],
                              Print (''Unexpected error: '' @ str e)]))
   \<and> (\<forall>e evs. fails env (SomeTool_management, 201) = Some e \<and> is_ExecuteError e
         \<and> fails env (GetMessages, 204) = None
       \<longrightarrow> Final_some_tool env evs =
           (Completed, evs @ [Call (SomeTool_management, 201) [Name ''input'', Name ''output''],
                              Call (GetMessages, 204) [Num 2],
                              Print (''Error with tool execution: '' @ tool_messages env)]))
   \<and> (\<forall>e e' evs. fails env (SomeTool_management, 201) = Some e \<and> is_ExecuteError e
         \<and> fails env (GetMessages, 204) = Some e'
       \<longrightarrow> Final_some_tool env evs =
           (Raised e', evs @ [Call (SomeTool_management, 201) [Name ''input'', Name ''output''],
                              Call (GetMessages, 204) [Num 2]]))
   \<and> (\<forall>e evs. fails env (SomeTool_management, 201) = Some e \<and> \<not> is_Exception e
       \<longrightarrow> Final_some_tool env evs =
           (Raised e, evs @ [Call (SomeTool_management, 201) [Name ''input'', Name ''output'']]))
   \<and> (\<forall>e. no_failure_before env 199 \<and> has_fields env \<and> dem_is_raster env
         \<and> fails env (SomeTool_management, 201) = Some e \<and> is_Exception e
         \<and> (is_ExecuteError e \<longrightarrow> fails env (GetMessages, 204) = None)
       \<longrightarrow> Call (Delete_management, 210) [Str temp_table] \<in> set (snd (run_Final env)))
   \<and> (\<forall>e. no_failure_before env 199 \<and> has_fields env \<and> dem_is_raster env
         \<and> fails env (SomeTool_management, 201) = Some e \<and> \<not> is_Exception e
       \<longrightarrow> fst (run_Final env) = Raised e)"
proof (intro conjI allI impI)
  fix s args e
  assume "Call s args \<in> set (snd (run_clip_dem env)) \<and> fails env s = Some e"
  then show "fst (run_clip_dem env) = Raised e"
    using propagates_run [OF clip_dem_propagates, of s args env e]
    by (simp add: run_clip_dem_def)
next
  fix s args e
  assume "Call s args \<in> set (snd (run_Final env)) \<and> fails env s = Some e
         \<and> s \<noteq> (SomeTool_management, 201)"
  then show "fst (run_Final env) = Raised e"
    using propagates_run [OF Final_propagates, of s args env e]
    by (simp add: run_Final_def)
next
  fix e evs
  assume "fails env (Clip, 77) = Some e \<and> is_Exception e"
  then show "clip_dem_clip env evs =
           (Raised e,
            evs @ [Call (Clip, 77)
                     [Str (dem_path env), Str (rectangle_text env (clip_dem_rectangle env)),
                      Str (clipped_dem env), Str '''', Str '''', Str ''ClippingGeometry'',
                      Str ''MAINTAIN_EXTENT''],
                   AddError (''Failed to clip DEM: '' @ str e)])"
    by (simp add: clip_dem_clip_logs)
next
  fix e
  assume "fst (Final_setup env []) = Completed \<and> fst (run_Final env) = Raised e
         \<and> is_Exception e"
  then show "last (snd (run_Final env)) = AddError (''Script failed with error: '' @ str e)"
    by (simp add: Final_handler_logs)
next
  fix e evs
  assume "fails env (SomeTool_management, 201) = Some e \<and> is_Exception e
         \<and> \<not> is_ExecuteError e"
  then show "Final_some_tool env evs =
           (Completed, evs @ [Call (SomeTool_management, 201) [Name ''input'', Name ''output''],
                              Print (''Unexpected error: '' @ str e)])"
    by (simp add: Final_some_tool_swallows)
next
  fix e evs
  assume "fails env (SomeTool_management, 201) = Some e \<and> is_ExecuteError e
         \<and> fails env (GetMessages, 204) = None"
  then show "Final_some_tool env evs =
           (Completed, evs @ [Call (SomeTool_management, 201) [Name ''input'', Name ''output''],
                              Call (GetMessages, 204) [Num 2],
                              Print (''Error with tool execution: '' @ tool_messages env)])"
    by (simp add: Final_some_tool_messages)
next
  fix e e' evs
  assume "fails env (SomeTool_management, 201) = Some e \<and> is_ExecuteError e
         \<and> fails env (GetMessages, 204) = Some e'"
  then show "Final_some_tool env evs =
           (Raised e', evs @ [Call (SomeTool_management, 201) [Name ''input'', Name ''output''],
                              Call (GetMessages, 204) [Num 2]])"
    by (simp add: Final_some_tool_messages_fail)
next
  fix e evs
  assume "fails env (SomeTool_management, 201) = Some e \<and> \<not> is_Exception e"
  then show "Final_some_tool env evs =
           (Raised e, evs @ [Call (SomeTool_management, 201) [Name ''input'', Name ''output'']])"
    by (simp add: Final_some_tool_passes)
next
  fix e
  assume "no_failure_before env 199 \<and> has_fields env \<and> dem_is_raster env
         \<and> fails env (SomeTool_management, 201) = Some e \<and> is_Exception e
         \<and> (is_ExecuteError e \<longrightarrow> fails env (GetMessages, 204) = None)"
  then show "Call (Delete_management, 210) [Str temp_table] \<in> set (snd (run_Final env))"
    by (simp add: Final_continues_after_some_tool)
next
  fix e
  assume "no_failure_before env 199 \<and> has_fields env \<and> dem_is_raster env
         \<and> fails env (SomeTool_management, 201) = Some e \<and> \<not> is_Exception e"
  then show "fst (run_Final env) = Raised e"
    by (simp add: Final_ends_on_non_Exception)
qed

theorem toolbox_failures_propagate_witness:
  "fails failing_clip_env (Clip, 77) = Some (Exn ExecuteError ''ERROR 999999: Clip failed'')
   \<and> Call (Clip, 77)
        [Str ''dem.tif'', Str ''x x x x'', Str ''clipped.tif'', Str '''', Str '''',
         Str ''ClippingGeometry'', Str ''MAINTAIN_EXTENT'']
       \<in> set (snd (run_clip_dem failing_clip_env))
   \<and> fst (run_clip_dem failing_clip_env) = Raised (Exn ExecuteError ''ERROR 999999: Clip failed'')
   \<and> fails failing_clip_env (Clip, 69) = Some (Exn ExecuteError ''ERROR 999999: Clip failed'')
   \<and> Call (Clip, 69)
        [Str projected_dem, Str ''x x x x'', Str ''clipped.tif'', Str ''#'', Str ''#'',
         Str ''NONE'', Str ''MAINTAIN_EXTENT'']
       \<in> set (snd (run_Final failing_clip_env))
   \<and> fst (run_Final failing_clip_env) = Raised (Exn ExecuteError ''ERROR 999999: Clip failed'')
   \<and> clip_dem_clip failing_clip_env [] =
       (Raised (Exn ExecuteError ''ERROR 999999: Clip failed''),
        [Call (Clip, 77)
           [Str ''dem.tif'', Str ''x x x x'', Str ''clipped.tif'', Str '''', Str '''',
            Str ''ClippingGeometry'', Str ''MAINTAIN_EXTENT''],
         AddError ''Failed to clip DEM: ERROR 999999: Clip failed''])
   \<and> fst (Final_setup failing_clip_env []) = Completed
   \<and> last (snd (run_Final failing_clip_env))
       = AddError ''Script failed with error: ERROR 999999: Clip failed''
   \<and> is_Exception (Exn AttributeError ''module arcpy has no attribute SomeTool_management'')
   \<and> Final_some_tool missing_tool_env [] =
       (Completed,
        [Call (SomeTool_management, 201) [Name ''input'', Name ''output''],
         Print ''Unexpected error: module arcpy has no attribute SomeTool_management''])
   \<and> no_failure_before missing_tool_env 199
   \<and> has_fields missing_tool_env
   \<and> dem_is_raster missing_tool_env
   \<and> Call (Delete_management, 210) [Str temp_table] \<in> set (snd (run_Final missing_tool_env))
   \<and> fails execute_error_env (SomeTool_management, 201) = Some (Exn ExecuteError ''ERROR 000732'')
   \<and> is_ExecuteError (Exn ExecuteError ''ERROR 000732'')
   \<and> fails execute_error_env (GetMessages, 204) = None
   \<and> Final_some_tool execute_error_env [] =
       (Completed,
        [Call (SomeTool_management, 201) [Name ''input'', Name ''output''],
         Call (GetMessages, 204) [Num 2],
         Print ''Error with tool execution: ERROR 000732: Input does not exist''])
   \<and> no_failure_before execute_error_env 199
   \<and> has_fields execute_error_env
   \<and> dem_is_raster execute_error_env
   \<and> Call (Delete_management, 210) [Str temp_table] \<in> set (snd (run_Final execute_error_env))
   \<and> fails messages_fail_env (SomeTool_management, 201) = Some (Exn ExecuteError ''ERROR 000732'')
   \<and> fails messages_fail_env (GetMessages, 204) = Some (Exn OtherException ''RuntimeError'')
   \<and> Final_some_tool messages_fail_env [] =
       (Raised (Exn OtherException ''RuntimeError''),
        [Call (SomeTool_management, 201) [Name ''input'', Name ''output''],
         Call (GetMessages, 204) [Num 2]])
   \<and> fails interrupted_env (SomeTool_management, 201)
        = Some (Exn BaseExceptionOnly ''KeyboardInterrupt'')
   \<and> \<not> is_Exception (Exn BaseExceptionOnly ''KeyboardInterrupt'')
   \<and> Final_some_tool interrupted_env [] =
       (Raised (Exn BaseExceptionOnly ''KeyboardInterrupt''),
        [Call (SomeTool_management, 201) [Name ''input'', Name ''output'']])
   \<and> no_failure_before interrupted_env 199
   \<and> has_fields interrupted_env
   \<and> dem_is_raster interrupted_env
   \<and> fst (run_Final interrupted_env) = Raised (Exn BaseExceptionOnly ''KeyboardInterrupt'')"
proof -
  have a: "Call (Clip, 77)
        [Str ''dem.tif'', Str ''x x x x'', Str ''clipped.tif'', Str '''', Str '''',
         Str ''ClippingGeometry'', Str ''MAINTAIN_EXTENT'']
       \<in> set (snd (run_clip_dem failing_clip_env))"
    by (simp add: run_clip_dem_def clip_dem_def clip_dem_sections exec failing_clip_env_def
          example_env_def Let_def x_field_def y_field_def clip_dem_rectangle_def
          buffer_extent_def clip_dem_buffer_def rectangle_text_def dem_path_def
          clipped_dem_def)
  have b: "Call (Clip, 69)
        [Str projected_dem, Str ''x x x x'', Str ''clipped.tif'', Str ''#'', Str ''#'',
         Str ''NONE'', Str ''MAINTAIN_EXTENT'']
       \<in> set (snd (run_Final failing_clip_env))"
    by (simp add: run_Final_def ArthurGEOG567_Final_def Final_body_def Final_sections exec
          failing_clip_env_def example_env_def Let_def x_field_def y_field_def
          Final_rectangle_def buffer_extent_def Final_buffer_def rectangle_text_def
          dem_path_def clipped_dem_def)
  have f: "fails failing_clip_env (Clip, 77) = Some (Exn ExecuteError ''ERROR 999999: Clip failed'')"
      "fails failing_clip_env (Clip, 69) = Some (Exn ExecuteError ''ERROR 999999: Clip failed'')"
      "fails missing_tool_env (SomeTool_management, 201)
         = Some (Exn AttributeError ''module arcpy has no attribute SomeTool_management'')"
      "fails execute_error_env (SomeTool_management, 201) = Some (Exn ExecuteError ''ERROR 000732'')"
      "fails execute_error_env (GetMessages, 204) = None"
      "fails messages_fail_env (SomeTool_management, 201) = Some (Exn ExecuteError ''ERROR 000732'')"
      "fails messages_fail_env (GetMessages, 204) = Some (Exn OtherException ''RuntimeError'')"
      "fails interrupted_env (SomeTool_management, 201)
         = Some (Exn BaseExceptionOnly ''KeyboardInterrupt'')"
      "tool_messages execute_error_env = ''ERROR 000732: Input does not exist''"
    by (simp_all add: failing_clip_env_def missing_tool_env_def execute_error_env_def
          messages_fail_env_def interrupted_env_def example_env_def)
  have r: "no_failure_before missing_tool_env 199" "has_fields missing_tool_env"
      "dem_is_raster missing_tool_env"
      "no_failure_before execute_error_env 199" "has_fields execute_error_env"
      "dem_is_raster execute_error_env"
      "no_failure_before interrupted_env 199" "has_fields interrupted_env"
      "dem_is_raster interrupted_env"
    by (simp_all add: no_failure_before_def has_fields_def dem_is_raster_def
          missing_tool_env_def execute_error_env_def interrupted_env_def example_env_def
          x_field_def y_field_def)
  have x: "is_Exception (Exn AttributeError ''module arcpy has no attribute SomeTool_management'')"
      "\<not> is_ExecuteError (Exn AttributeError ''module arcpy has no attribute SomeTool_management'')"
      "is_ExecuteError (Exn ExecuteError ''ERROR 000732'')"
      "is_Exception (Exn ExecuteError ''ERROR 000732'')"
      "\<not> is_Exception (Exn BaseExceptionOnly ''KeyboardInterrupt'')"
    by simp_all
  note clip = toolbox_failures_propagate [of failing_clip_env]
  note missing = toolbox_failures_propagate [of missing_tool_env]
  note exec_err = toolbox_failures_propagate [of execute_error_env]
  note msg_fail = toolbox_failures_propagate [of messages_fail_env]
  note interrupted = toolbox_failures_propagate [of interrupted_env]
  have c: "fst (run_clip_dem failing_clip_env)
             = Raised (Exn ExecuteError ''ERROR 999999: Clip failed'')"
    by (rule clip [THEN conjunct1, rule_format, OF conjI [OF a f(1)]])
  have d: "fst (run_Final failing_clip_env)
             = Raised (Exn ExecuteError ''ERROR 999999: Clip failed'')"
    using clip [THEN conjunct2, THEN conjunct1, rule_format,
        of "(Clip, 69)" _ "Exn ExecuteError ''ERROR 999999: Clip failed''"] b f(2)
    by simp
  have i: "clip_dem_clip failing_clip_env [] =
       (Raised (Exn ExecuteError ''ERROR 999999: Clip failed''),
        [] @ [Call (Clip, 77)
           [Str (dem_path failing_clip_env),
            Str (rectangle_text failing_clip_env (clip_dem_rectangle failing_clip_env)),
            Str (clipped_dem failing_clip_env), Str '''', Str '''',
            Str ''ClippingGeometry'', Str ''MAINTAIN_EXTENT''],
         AddError (''Failed to clip DEM: ''
           @ str (Exn ExecuteError ''ERROR 999999: Clip failed''))])"
    using clip [THEN conjunct2, THEN conjunct2, THEN conjunct1, rule_format,
        of "Exn ExecuteError ''ERROR 999999: Clip failed''" "[]"] f(1)
    by simp
  have g: "fst (Final_setup failing_clip_env []) = Completed"
    by (simp add: Final_setup_def exec failing_clip_env_def example_env_def)
  have h: "last (snd (run_Final failing_clip_env))
       = AddError (''Script failed with error: ''
           @ str (Exn ExecuteError ''ERROR 999999: Clip failed''))"
    using clip [THEN conjunct2, THEN conjunct2, THEN conjunct2, THEN conjunct1, rule_format,
        of "Exn ExecuteError ''ERROR 999999: Clip failed''"] d g
    by simp
  have e: "Final_some_tool missing_tool_env [] =
       (Completed,
        [] @ [Call (SomeTool_management, 201) [Name ''input'', Name ''output''],
         Print (''Unexpected error: ''
           @ str (Exn AttributeError ''module arcpy has no attribute SomeTool_management''))])"
    using missing [THEN conjunct2, THEN conjunct2, THEN conjunct2, THEN conjunct2,
        THEN conjunct1, rule_format,
        of "Exn AttributeError ''module arcpy has no attribute SomeTool_management''" "[]"]
      f(3)
    by simp
  have j: "dem_path failing_clip_env = ''dem.tif''"
      "clipped_dem failing_clip_env = ''clipped.tif''"
      "rectangle_text failing_clip_env (clip_dem_rectangle failing_clip_env) = ''x x x x''"
    by (simp_all add: failing_clip_env_def example_env_def dem_path_def clipped_dem_def
          rectangle_text_def clip_dem_rectangle_def buffer_extent_def)
  have l: "Final_some_tool execute_error_env [] =
       (Completed,
        [] @ [Call (SomeTool_management, 201) [Name ''input'', Name ''output''],
         Call (GetMessages, 204) [Num 2],
         Print (''Error with tool execution: '' @ tool_messages execute_error_env)])"
    using exec_err [THEN conjunct2, THEN conjunct2, THEN conjunct2, THEN conjunct2,
        THEN conjunct2, THEN conjunct1, rule_format,
        of "Exn ExecuteError ''ERROR 000732''" "[]"] f(4,5)
    by simp
  have n: "Final_some_tool messages_fail_env [] =
       (Raised (Exn OtherException ''RuntimeError''),
        [] @ [Call (SomeTool_management, 201) [Name ''input'', Name ''output''],
         Call (GetMessages, 204) [Num 2]])"
    using msg_fail [THEN conjunct2, THEN conjunct2, THEN conjunct2, THEN conjunct2,
        THEN conjunct2, THEN conjunct2, THEN conjunct1, rule_format,
        of "Exn ExecuteError ''ERROR 000732''" "Exn OtherException ''RuntimeError''" "[]"]
      f(6,7)
    by simp
  have p: "Final_some_tool interrupted_env [] =
       (Raised (Exn BaseExceptionOnly ''KeyboardInterrupt''),
        [] @ [Call (SomeTool_management, 201) [Name ''input'', Name ''output'']])"
    using interrupted [THEN conjunct2, THEN conjunct2, THEN conjunct2, THEN conjunct2,
        THEN conjunct2, THEN conjunct2, THEN conjunct2, THEN conjunct1, rule_format,
        of "Exn BaseExceptionOnly ''KeyboardInterrupt''" "[]"] f(8)
    by simp
  have k: "Call (Delete_management, 210) [Str temp_table] \<in> set (snd (run_Final missing_tool_env))"
    using missing [THEN conjunct2, THEN conjunct2, THEN conjunct2, THEN conjunct2,
        THEN conjunct2, THEN conjunct2, THEN conjunct2, THEN conjunct2, THEN conjunct1,
        rule_format,
        of "Exn AttributeError ''module arcpy has no attribute SomeTool_management''"]
      f(3) r(1-3)
    by simp
  have m: "Call (Delete_management, 210) [Str temp_table]
             \<in> set (snd (run_Final execute_error_env))"
    using exec_err [THEN conjunct2, THEN conjunct2, THEN conjunct2, THEN conjunct2,
        THEN conjunct2, THEN conjunct2, THEN conjunct2, THEN conjunct2, THEN conjunct1,
        rule_format, of "Exn ExecuteError ''ERROR 000732''"]
      f(4,5) r(4-6)
    by simp
  have q: "fst (run_Final interrupted_env) = Raised (Exn BaseExceptionOnly ''KeyboardInterrupt'')"
    using interrupted [THEN conjunct2, THEN conjunct2, THEN conjunct2, THEN conjunct2,
        THEN conjunct2, THEN conjunct2, THEN conjunct2, THEN conjunct2, THEN conjunct2,
        rule_format, of "Exn BaseExceptionOnly ''KeyboardInterrupt''"]
      f(8) r(7-9)
    by simp
  from a b c d e f g h i j k l m n p q r x show ?thesis by simp
qed

text \<open>
  The claim as first stated covers line 201 too. With a toolbox that has no
  \<^verbatim>\<open>SomeTool_management\<close> the call of line 201 raises, the exception is printed, the script
  goes on to delete its temporary datasets and the run completes.
\<close>

theorem some_tool_failure_discarded_counterexample:
  "fails missing_tool_env (SomeTool_management, 201)
     = Some (Exn AttributeError ''module arcpy has no attribute SomeTool_management'')
   \<and> Call (SomeTool_management, 201) [Name ''input'', Name ''output'']
       \<in> set (snd (run_Final missing_tool_env))
   \<and> Print ''Unexpected error: module arcpy has no attribute SomeTool_management''
       \<in> set (snd (run_Final missing_tool_env))
   \<and> Call (Delete_management, 210) [Str temp_table] \<in> set (snd (run_Final missing_tool_env))
   \<and> fst (run_Final missing_tool_env) = Completed"
  by (simp add: run_Final_def ArthurGEOG567_Final_def Final_body_def Final_sections exec
        missing_tool_env_def example_env_def Let_def x_field_def y_field_def)

end
